theory Spec2Isabelle
  imports Main "HOL-Library.Word" "HOL-Library.AList"
begin

section \<open>The RQL query endpoint (Hasura.Server.API.V2Query)\<close>

text \<open>
  The payload of a query (\<open>InsertQuery\<close>, \<open>SelectQuery\<close>, the run-sql requests of the
  backends) is declared in modules that are not among the sources. The payloads are type
  parameters: \<open>'pg\<close> is \<open>Postgres.RunSQL\<close>, \<open>'ms\<close> is \<open>MSSQL.MSSQLRunSQL\<close>, and
  \<open>'q\<close> is every other payload.
\<close>

datatype ('q, 'pg, 'ms) RQLQuery
  = RQInsert 'q
  | RQSelect 'q
  | RQUpdate 'q
  | RQDelete 'q
  | RQCount 'q
  | RQRunSql 'pg
  | RQMssqlRunSql 'ms
  | RQCitusRunSql 'pg
  | RQCockroachRunSql 'pg
  | RQMysqlRunSql 'q
  | RQBigqueryRunSql 'q
  | RQDataConnectorRunSql 'q 'q
  | RQBigqueryDatabaseInspection 'q
  | RQBulk "('q, 'pg, 'ms) RQLQuery list"
  | RQConcurrentBulk "('q, 'pg, 'ms) RQLQuery list"

text \<open>
  \<open>queryModifiesSchema\<close>. The two predicates \<open>isSchemaCacheBuildRequiredRunSQL\<close> (of the
  Postgres and of the MSSQL backend) are imported by the source; they are the parameters
  \<open>pgReq\<close> and \<open>msReq\<close>. Haskell's \<open>any\<close> on a list is \<open>list_ex\<close>.
\<close>

fun queryModifiesSchema ::
  "('pg \<Rightarrow> bool) \<Rightarrow> ('ms \<Rightarrow> bool) \<Rightarrow> ('q, 'pg, 'ms) RQLQuery \<Rightarrow> bool" where
  "queryModifiesSchema pgReq msReq (RQInsert _) = False"
| "queryModifiesSchema pgReq msReq (RQSelect _) = False"
| "queryModifiesSchema pgReq msReq (RQUpdate _) = False"
| "queryModifiesSchema pgReq msReq (RQDelete _) = False"
| "queryModifiesSchema pgReq msReq (RQCount _) = False"
| "queryModifiesSchema pgReq msReq (RQRunSql q) = pgReq q"
| "queryModifiesSchema pgReq msReq (RQCitusRunSql q) = pgReq q"
| "queryModifiesSchema pgReq msReq (RQCockroachRunSql q) = pgReq q"
| "queryModifiesSchema pgReq msReq (RQMssqlRunSql q) = msReq q"
| "queryModifiesSchema pgReq msReq (RQMysqlRunSql _) = False"
| "queryModifiesSchema pgReq msReq (RQBigqueryRunSql _) = False"
| "queryModifiesSchema pgReq msReq (RQDataConnectorRunSql _ _) = False"
| "queryModifiesSchema pgReq msReq (RQBigqueryDatabaseInspection _) = False"
| "queryModifiesSchema pgReq msReq (RQBulk l) = list_ex (queryModifiesSchema pgReq msReq) l"
| "queryModifiesSchema pgReq msReq (RQConcurrentBulk l) =
     list_ex (queryModifiesSchema pgReq msReq) l"

fun queryModifiesUserDB :: "('q, 'pg, 'ms) RQLQuery \<Rightarrow> bool" where
  "queryModifiesUserDB (RQInsert _) = True"
| "queryModifiesUserDB (RQSelect _) = False"
| "queryModifiesUserDB (RQUpdate _) = True"
| "queryModifiesUserDB (RQDelete _) = True"
| "queryModifiesUserDB (RQCount _) = False"
| "queryModifiesUserDB (RQRunSql _) = True"
| "queryModifiesUserDB (RQCitusRunSql _) = True"
| "queryModifiesUserDB (RQCockroachRunSql _) = True"
| "queryModifiesUserDB (RQMssqlRunSql _) = True"
| "queryModifiesUserDB (RQMysqlRunSql _) = True"
| "queryModifiesUserDB (RQBigqueryRunSql _) = True"
| "queryModifiesUserDB (RQDataConnectorRunSql _ _) = True"
| "queryModifiesUserDB (RQBigqueryDatabaseInspection _) = False"
| "queryModifiesUserDB (RQBulk q) = list_ex queryModifiesUserDB q"
| "queryModifiesUserDB (RQConcurrentBulk _) = False"

subsection \<open>Errors and the monad of the handlers\<close>

text \<open>
  \<open>QErr\<close> and its constructors \<open>throw400\<close> and \<open>throw500\<close> come from
  \<open>Hasura.Base.Error\<close>, which is not among the sources. An error is modelled by what the
  source passes when it throws: the HTTP status, the error code and the message; the path
  is the list of bulk indices that \<open>indexedMapM\<close> prefixes.
\<close>

datatype Code = NotSupported | Unexpected | OtherCode string

record QErr =
  qePath :: "nat list"
  qeStatus :: nat
  qeCode :: Code
  qeError :: string

definition err400 :: "Code \<Rightarrow> string \<Rightarrow> QErr" where
  "err400 c msg = \<lparr>qePath = [], qeStatus = 400, qeCode = c, qeError = msg\<rparr>"

definition err500 :: "Code \<Rightarrow> string \<Rightarrow> QErr" where
  "err500 c msg = \<lparr>qePath = [], qeStatus = 500, qeCode = c, qeError = msg\<rparr>"

text \<open>
  The handlers run in a monad \<open>m\<close> with \<open>MonadError QErr\<close> and with the state of the
  schema cache and the metadata. A computation is a function from the state \<open>'s\<close> to an
  error or a result with the new state.
\<close>

type_synonym ('s, 'a) M = "'s \<Rightarrow> QErr + ('a \<times> 's)"

definition throw400 :: "Code \<Rightarrow> string \<Rightarrow> ('s, 'a) M" where
  "throw400 c msg = (\<lambda>s. Inl (err400 c msg))"

definition throw500 :: "string \<Rightarrow> ('s, 'a) M" where
  "throw500 msg = (\<lambda>s. Inl (err500 Unexpected msg))"

definition fmapM :: "('a \<Rightarrow> 'b) \<Rightarrow> ('s, 'a) M \<Rightarrow> ('s, 'b) M" where
  "fmapM h m = (\<lambda>s. case m s of Inl e \<Rightarrow> Inl e | Inr (a, s') \<Rightarrow> Inr (h a, s'))"

definition withPathI :: "nat \<Rightarrow> ('s, 'a) M \<Rightarrow> ('s, 'a) M" where
  "withPathI i m = (\<lambda>s. case m s of
       Inl e \<Rightarrow> Inl (e\<lparr>qePath := i # qePath e\<rparr>)
     | Inr r \<Rightarrow> Inr r)"

text \<open>
  \<open>indexedMapM f\<close> runs \<open>f\<close> on the elements from left to right, threading the state,
  and prefixes the index of the failing element to the path of its error.
\<close>

fun indexedMapM_from ::
  "nat \<Rightarrow> ('a \<Rightarrow> ('s, 'b) M) \<Rightarrow> 'a list \<Rightarrow> ('s, 'b list) M" where
  "indexedMapM_from i f [] s = Inr ([], s)"
| "indexedMapM_from i f (x # xs) s =
     (case withPathI i (f x) s of
        Inl e \<Rightarrow> Inl e
      | Inr (y, s') \<Rightarrow>
          (case indexedMapM_from (Suc i) f xs s' of
             Inl e \<Rightarrow> Inl e
           | Inr (ys, s'') \<Rightarrow> Inr (y # ys, s'')))"

definition indexedMapM :: "('a \<Rightarrow> ('s, 'b) M) \<Rightarrow> 'a list \<Rightarrow> ('s, 'b list) M" where
  "indexedMapM = indexedMapM_from 0"

text \<open>
  \<open>mapConcurrently\<close> (package lifted-async) runs the action on every element, each run
  starting from the state at the call, so that no run sees the effects of another. It
  fails when a run fails (with the error of the first failing element of the list), and
  otherwise returns the results in the order of the list; the state changes of the single
  runs are not merged, the caller continues in the state of the call. The interleaving
  of the runs is not represented.
\<close>

fun collectResults :: "(QErr + ('b \<times> 's)) list \<Rightarrow> QErr + 'b list" where
  "collectResults [] = Inr []"
| "collectResults (Inl e # rs) = Inl e"
| "collectResults (Inr (y, _) # rs) =
     (case collectResults rs of Inl e \<Rightarrow> Inl e | Inr ys \<Rightarrow> Inr (y # ys))"

definition mapConcurrently :: "('a \<Rightarrow> ('s, 'b) M) \<Rightarrow> 'a list \<Rightarrow> ('s, 'b list) M" where
  "mapConcurrently f xs = (\<lambda>s.
     case collectResults (map (\<lambda>x. f x s) xs) of
       Inl e \<Rightarrow> Inl e
     | Inr ys \<Rightarrow> Inr (ys, s))"

subsection \<open>Running a query\<close>

text \<open>
  The handlers of the single queries (\<open>runInsert\<close>, \<open>Postgres.runRunSQL\<close>, ...), the
  encoder \<open>encJFromList\<close> and the two schema predicates are imported by the source; they
  are the fields of a record that \<open>runQueryM\<close> takes as its first argument. The type
  application \<open>@'Vanilla\<close> of \<open>Postgres.runRunSQL\<close> is an argument of type
  \<open>PostgresKind\<close>. \<open>Tracing.trace\<close> only names the span and is left out.
\<close>

datatype PostgresKind = Vanilla | Citus | Cockroach

record ('q, 'pg, 'ms, 's, 'j) Handlers =
  runInsert :: "'q \<Rightarrow> ('s, 'j) M"
  runSelect :: "'q \<Rightarrow> ('s, 'j) M"
  runUpdate :: "'q \<Rightarrow> ('s, 'j) M"
  runDelete :: "'q \<Rightarrow> ('s, 'j) M"
  runCount :: "'q \<Rightarrow> ('s, 'j) M"
  Postgres_runRunSQL :: "PostgresKind \<Rightarrow> 'pg \<Rightarrow> ('s, 'j) M"
  MSSQL_runSQL :: "'ms \<Rightarrow> ('s, 'j) M"
  MySQL_runSQL :: "'q \<Rightarrow> ('s, 'j) M"
  BigQuery_runSQL :: "'q \<Rightarrow> ('s, 'j) M"
  DataConnector_runSQL :: "'q \<Rightarrow> 'q \<Rightarrow> ('s, 'j) M"
  BigQuery_runDatabaseInspection :: "'q \<Rightarrow> ('s, 'j) M"
  encJFromList :: "'j list \<Rightarrow> 'j"
  Postgres_isSchemaCacheBuildRequiredRunSQL :: "'pg \<Rightarrow> bool"
  MSSQL_isSchemaCacheBuildRequiredRunSQL :: "'ms \<Rightarrow> bool"

lemma indexedMapM_from_cong [fundef_cong]:
  "xs = ys \<Longrightarrow> s = t \<Longrightarrow> i = j \<Longrightarrow> (\<And>x u. x \<in> set ys \<Longrightarrow> f x u = g x u) \<Longrightarrow>
   indexedMapM_from i f xs s = indexedMapM_from j g ys t"
proof (induction ys arbitrary: xs s t i j)
  case Nil
  then show ?case by simp
next
  case (Cons y ys)
  have "indexedMapM_from (Suc j) f ys u = indexedMapM_from (Suc j) g ys u" for u
    using Cons.IH [of ys u u "Suc j" "Suc j"] Cons.prems(4) by simp
  moreover have "f y = g y" using Cons.prems(4) by auto
  ultimately show ?case using Cons.prems(1,2,3)
    by (simp add: withPathI_def split: sum.splits prod.splits)
qed

lemma indexedMapM_cong [fundef_cong]:
  "xs = ys \<Longrightarrow> s = t \<Longrightarrow> (\<And>x u. x \<in> set ys \<Longrightarrow> f x u = g x u) \<Longrightarrow>
   indexedMapM f xs s = indexedMapM g ys t"
  unfolding indexedMapM_def by (rule indexedMapM_from_cong) auto

lemma mapConcurrently_cong [fundef_cong]:
  "xs = ys \<Longrightarrow> s = t \<Longrightarrow> (\<And>x. x \<in> set ys \<Longrightarrow> f x t = g x t) \<Longrightarrow>
   mapConcurrently f xs s = mapConcurrently g ys t"
  unfolding mapConcurrently_def by (simp cong: map_cong split: sum.splits)

lemma fmapM_cong [fundef_cong]:
  "s = t \<Longrightarrow> m t = n t \<Longrightarrow> fmapM h m s = fmapM h n t"
  unfolding fmapM_def by simp

fun runQueryM ::
  "('q, 'pg, 'ms, 's, 'j) Handlers \<Rightarrow> ('q, 'pg, 'ms) RQLQuery \<Rightarrow> ('s, 'j) M" where
  "runQueryM env (RQInsert q) s = runInsert env q s"
| "runQueryM env (RQSelect q) s = runSelect env q s"
| "runQueryM env (RQUpdate q) s = runUpdate env q s"
| "runQueryM env (RQDelete q) s = runDelete env q s"
| "runQueryM env (RQCount q) s = runCount env q s"
| "runQueryM env (RQRunSql q) s = Postgres_runRunSQL env Vanilla q s"
| "runQueryM env (RQMssqlRunSql q) s = MSSQL_runSQL env q s"
| "runQueryM env (RQMysqlRunSql q) s = MySQL_runSQL env q s"
| "runQueryM env (RQCitusRunSql q) s = Postgres_runRunSQL env Citus q s"
| "runQueryM env (RQCockroachRunSql q) s = Postgres_runRunSQL env Cockroach q s"
| "runQueryM env (RQBigqueryRunSql q) s = BigQuery_runSQL env q s"
| "runQueryM env (RQDataConnectorRunSql t q) s = DataConnector_runSQL env t q s"
| "runQueryM env (RQBigqueryDatabaseInspection q) s = BigQuery_runDatabaseInspection env q s"
| "runQueryM env (RQBulk l) s = fmapM (encJFromList env) (indexedMapM (runQueryM env) l) s"
| "runQueryM env (RQConcurrentBulk l) s =
     (if queryModifiesSchema (Postgres_isSchemaCacheBuildRequiredRunSQL env)
           (MSSQL_isSchemaCacheBuildRequiredRunSQL env) (RQConcurrentBulk l)
      then throw500 ''Only read-only queries are allowed in a concurrent_bulk'' s
      else fmapM (encJFromList env) (mapConcurrently (runQueryM env) l) s)"

text \<open>
  \<open>runQuery\<close>: the read-only guard, then the metadata is fetched, the query is run and
  \<open>withReload\<close> stores the metadata when the query modifies the schema. The state \<open>'s\<close>
  holds the metadata and the schema cache that \<open>runMetadataT\<close> and \<open>runCacheRWT\<close> thread
  through the handlers, so \<open>fetchMetadata\<close> returns the resource version only and
  \<open>setMetadata\<close> reads the updated metadata from the state. The metadata storage is a
  record of the three operations the source calls; \<open>runQuery_afterGuard\<close> is the do-block
  of \<open>runQuery\<close> from its second statement on.
\<close>

datatype ReadOnlyMode = ReadOnlyModeEnabled | ReadOnlyModeDisabled

datatype MaintenanceMode = MaintenanceModeEnabled | MaintenanceModeDisabled

record ServerConfigCtx =
  sccReadOnlyMode :: ReadOnlyMode
  sccMaintenanceMode :: MaintenanceMode

record ('s, 'rv) MetadataStorage =
  fetchMetadata :: "('s, 'rv) M"
  setMetadata :: "'rv \<Rightarrow> ('s, 'rv) M"
  notifySchemaCacheSync :: "'rv \<Rightarrow> ('s, unit) M"

definition returnM :: "'a \<Rightarrow> ('s, 'a) M" where
  "returnM a = (\<lambda>s. Inr (a, s))"

definition bindM :: "('s, 'a) M \<Rightarrow> ('a \<Rightarrow> ('s, 'b) M) \<Rightarrow> ('s, 'b) M" where
  "bindM m k = (\<lambda>s. case m s of Inl e \<Rightarrow> Inl e | Inr (a, s') \<Rightarrow> k a s')"

definition withReload ::
  "('s, 'rv) MetadataStorage \<Rightarrow> ('q, 'pg, 'ms, 's, 'j) Handlers \<Rightarrow> ServerConfigCtx \<Rightarrow>
   ('q, 'pg, 'ms) RQLQuery \<Rightarrow> 'rv \<Rightarrow> 'j \<Rightarrow> ('s, 'j) M" where
  "withReload st env serverConfigCtx rqlQuery currentResourceVersion result =
     (if queryModifiesSchema (Postgres_isSchemaCacheBuildRequiredRunSQL env)
           (MSSQL_isSchemaCacheBuildRequiredRunSQL env) rqlQuery
      then (case sccMaintenanceMode serverConfigCtx of
              MaintenanceModeDisabled \<Rightarrow>
                bindM (setMetadata st currentResourceVersion) (\<lambda>newResourceVersion.
                bindM (notifySchemaCacheSync st newResourceVersion) (\<lambda>_.
                returnM result))
            | MaintenanceModeEnabled \<Rightarrow>
                throw500 ''metadata cannot be modified in maintenance mode'')
      else returnM result)"

definition runQuery_afterGuard ::
  "('s, 'rv) MetadataStorage \<Rightarrow> ('q, 'pg, 'ms, 's, 'j) Handlers \<Rightarrow> ServerConfigCtx \<Rightarrow>
   ('q, 'pg, 'ms) RQLQuery \<Rightarrow> ('s, 'j) M" where
  "runQuery_afterGuard st env serverConfigCtx rqlQuery =
     bindM (fetchMetadata st) (\<lambda>currentResourceVersion.
     bindM (runQueryM env rqlQuery) (\<lambda>result.
     withReload st env serverConfigCtx rqlQuery currentResourceVersion result))"

definition runQuery ::
  "('s, 'rv) MetadataStorage \<Rightarrow> ('q, 'pg, 'ms, 's, 'j) Handlers \<Rightarrow> ServerConfigCtx \<Rightarrow>
   ('q, 'pg, 'ms) RQLQuery \<Rightarrow> ('s, 'j) M" where
  "runQuery st env serverConfigCtx rqlQuery =
     (if sccReadOnlyMode serverConfigCtx = ReadOnlyModeEnabled \<and> queryModifiesUserDB rqlQuery
      then throw400 NotSupported ''Cannot run write queries when read-only mode is enabled''
      else runQuery_afterGuard st env serverConfigCtx rqlQuery)"

subsection \<open>Properties of the endpoint\<close>

lemma collectResults_all_Inr:
  "list_all2 (\<lambda>r j. \<exists>s'. r = Inr (j, s')) rs js \<Longrightarrow> collectResults rs = Inr js"
  by (induction rs js rule: list_all2_induct) auto

text \<open>
  C6. \<open>queryModifiesSchema\<close> of a bulk or of a concurrent bulk holds exactly when it
  holds of some query of the list. Running a concurrent bulk of which some query
  modifies the schema throws the error 500 "Only read-only queries are allowed in a
  concurrent_bulk", whatever the handlers do. When no query of the list modifies the
  schema, the concurrent bulk is \<open>mapConcurrently\<close> of \<open>runQueryM\<close> over the list, encoded
  by \<open>encJFromList\<close>: when the queries return the results \<open>js\<close>, it returns
  \<open>encJFromList js\<close>.
\<close>

theorem concurrent_bulk_schema_assertion:
  fixes env :: "('q, 'pg, 'ms, 's, 'j) Handlers"
  defines "modifies \<equiv> queryModifiesSchema (Postgres_isSchemaCacheBuildRequiredRunSQL env)
                         (MSSQL_isSchemaCacheBuildRequiredRunSQL env)"
  shows "(modifies (RQBulk l) \<longleftrightarrow> (\<exists>q\<in>set l. modifies q))
       \<and> (modifies (RQConcurrentBulk l) \<longleftrightarrow> (\<exists>q\<in>set l. modifies q))
       \<and> ((\<exists>q\<in>set l. modifies q) \<longrightarrow>
            runQueryM env (RQConcurrentBulk l) s =
              Inl (err500 Unexpected ''Only read-only queries are allowed in a concurrent_bulk''))
       \<and> (\<not> (\<exists>q\<in>set l. modifies q) \<longrightarrow>
            runQueryM env (RQConcurrentBulk l) s =
              fmapM (encJFromList env) (mapConcurrently (runQueryM env) l) s)
       \<and> (\<not> (\<exists>q\<in>set l. modifies q) \<longrightarrow>
            list_all2 (\<lambda>q j. \<exists>s'. runQueryM env q s = Inr (j, s')) l js \<longrightarrow>
            runQueryM env (RQConcurrentBulk l) s = Inr (encJFromList env js, s))"
proof -
  have ex: "modifies (RQConcurrentBulk l) \<longleftrightarrow> (\<exists>q\<in>set l. modifies q)"
    by (simp add: modifies_def list_ex_iff)
  have bulk: "modifies (RQBulk l) \<longleftrightarrow> (\<exists>q\<in>set l. modifies q)"
    by (simp add: modifies_def list_ex_iff)
  have rejected: "runQueryM env (RQConcurrentBulk l) s =
      Inl (err500 Unexpected ''Only read-only queries are allowed in a concurrent_bulk'')"
    if "\<exists>q\<in>set l. modifies q"
    using that ex by (simp add: modifies_def throw500_def)
  have run: "runQueryM env (RQConcurrentBulk l) s =
      fmapM (encJFromList env) (mapConcurrently (runQueryM env) l) s"
    if "\<not> (\<exists>q\<in>set l. modifies q)"
    using that ex by (simp add: modifies_def)
  have results: "runQueryM env (RQConcurrentBulk l) s = Inr (encJFromList env js, s)"
    if none: "\<not> (\<exists>q\<in>set l. modifies q)"
      and ok: "list_all2 (\<lambda>q j. \<exists>s'. runQueryM env q s = Inr (j, s')) l js"
  proof -
    from ok have "list_all2 (\<lambda>r j. \<exists>s'. r = Inr (j, s')) (map (\<lambda>q. runQueryM env q s) l) js"
      by (simp add: list_all2_map1)
    then have "collectResults (map (\<lambda>q. runQueryM env q s) l) = Inr js"
      by (rule collectResults_all_Inr)
    then show ?thesis
      using run [OF none] by (simp add: fmapM_def mapConcurrently_def)
  qed
  from bulk ex rejected run results show ?thesis by blast
qed

text \<open>
  C9. \<open>queryModifiesUserDB\<close> of a concurrent bulk is \<open>False\<close> for every list of queries, so
  the read-only guard of \<open>runQuery\<close> never throws on a concurrent bulk: in every server
  configuration \<open>runQuery\<close> continues with the statements after the guard, also when the
  list holds inserts or run_sql queries.
\<close>

theorem concurrent_bulk_skips_read_only_guard:
  "queryModifiesUserDB (RQConcurrentBulk l) = False
   \<and> runQuery st env serverConfigCtx (RQConcurrentBulk l)
       = runQuery_afterGuard st env serverConfigCtx (RQConcurrentBulk l)"
  by (simp add: runQuery_def)

text \<open>
  Handlers and a metadata storage to evaluate the endpoint on: the state is a counter that
  every writing handler increments, the results are strings that \<open>encJFromList\<close>
  concatenates.
\<close>

definition demoHandlers :: "(nat, bool, bool, nat, string) Handlers" where
  "demoHandlers = \<lparr>
     runInsert = (\<lambda>q s. Inr (''i'', Suc s)),
     runSelect = (\<lambda>q s. Inr (''s'', s)),
     runUpdate = (\<lambda>q s. Inr (''u'', Suc s)),
     runDelete = (\<lambda>q s. Inr (''d'', Suc s)),
     runCount = (\<lambda>q s. Inr (''c'', s)),
     Postgres_runRunSQL = (\<lambda>k q s. Inr (''p'', Suc s)),
     MSSQL_runSQL = (\<lambda>q s. Inr (''m'', Suc s)),
     MySQL_runSQL = (\<lambda>q s. Inr (''y'', Suc s)),
     BigQuery_runSQL = (\<lambda>q s. Inr (''b'', Suc s)),
     DataConnector_runSQL = (\<lambda>t q s. Inr (''x'', Suc s)),
     BigQuery_runDatabaseInspection = (\<lambda>q s. Inr (''n'', s)),
     encJFromList = concat,
     Postgres_isSchemaCacheBuildRequiredRunSQL = (\<lambda>q. q),
     MSSQL_isSchemaCacheBuildRequiredRunSQL = (\<lambda>q. q)\<rparr>"

definition demoStorage :: "(nat, nat) MetadataStorage" where
  "demoStorage = \<lparr>
     fetchMetadata = (\<lambda>s. Inr (s, s)),
     setMetadata = (\<lambda>rv s. Inr (Suc rv, s)),
     notifySchemaCacheSync = (\<lambda>rv s. Inr ((), s))\<rparr>"

theorem concurrent_bulk_schema_assertion_witness:
  "runQueryM demoHandlers (RQConcurrentBulk [RQSelect 1, RQRunSql True]) 0 =
     Inl (err500 Unexpected ''Only read-only queries are allowed in a concurrent_bulk'')
   \<and> runQueryM demoHandlers (RQConcurrentBulk [RQSelect 1, RQInsert 2, RQRunSql False]) 0 =
     Inr (''sip'', 0)"
proof -
  have rejected: "\<exists>q\<in>set [RQSelect 1, RQRunSql True].
      queryModifiesSchema (Postgres_isSchemaCacheBuildRequiredRunSQL demoHandlers)
        (MSSQL_isSchemaCacheBuildRequiredRunSQL demoHandlers) (q :: (nat, bool, bool) RQLQuery)"
    by (simp add: demoHandlers_def)
  have none: "\<not> (\<exists>q\<in>set [RQSelect 1, RQInsert 2, RQRunSql False].
      queryModifiesSchema (Postgres_isSchemaCacheBuildRequiredRunSQL demoHandlers)
        (MSSQL_isSchemaCacheBuildRequiredRunSQL demoHandlers) (q :: (nat, bool, bool) RQLQuery))"
    by (simp add: demoHandlers_def)
  have each: "list_all2 (\<lambda>q j. \<exists>s'. runQueryM demoHandlers q (0::nat) = Inr (j, s'))
      [RQSelect 1, RQInsert 2, RQRunSql False] [''s'', ''i'', ''p'']"
    by (simp add: demoHandlers_def)
  have enc: "encJFromList demoHandlers [''s'', ''i'', ''p''] = ''sip''"
    by (simp add: demoHandlers_def)
  from concurrent_bulk_schema_assertion
         [of demoHandlers "[RQSelect 1, RQRunSql True]" 0 "[]"] rejected
  have a: "runQueryM demoHandlers (RQConcurrentBulk [RQSelect 1, RQRunSql True]) 0 =
     Inl (err500 Unexpected ''Only read-only queries are allowed in a concurrent_bulk'')"
    by blast
  from concurrent_bulk_schema_assertion
         [of demoHandlers "[RQSelect 1, RQInsert 2, RQRunSql False]" 0 "[''s'', ''i'', ''p'']"]
       none each
  have "runQueryM demoHandlers (RQConcurrentBulk [RQSelect 1, RQInsert 2, RQRunSql False]) 0 =
     Inr (encJFromList demoHandlers [''s'', ''i'', ''p''], 0)"
    by blast
  with a enc show ?thesis by simp
qed

theorem concurrent_bulk_skips_read_only_guard_witness:
  "runQuery demoStorage demoHandlers
      \<lparr>sccReadOnlyMode = ReadOnlyModeEnabled, sccMaintenanceMode = MaintenanceModeDisabled\<rparr>
      (RQConcurrentBulk [RQInsert 1, RQRunSql False]) 0 = Inr (''ip'', 0)
   \<and> runQuery demoStorage demoHandlers
      \<lparr>sccReadOnlyMode = ReadOnlyModeEnabled, sccMaintenanceMode = MaintenanceModeDisabled\<rparr>
      (RQBulk [RQInsert 1, RQRunSql False]) 0 =
        Inl (err400 NotSupported ''Cannot run write queries when read-only mode is enabled'')"
proof -
  have "runQuery_afterGuard demoStorage demoHandlers
      \<lparr>sccReadOnlyMode = ReadOnlyModeEnabled, sccMaintenanceMode = MaintenanceModeDisabled\<rparr>
      (RQConcurrentBulk [RQInsert 1, RQRunSql False]) 0 = Inr (''ip'', 0)"
    by (simp add: runQuery_afterGuard_def withReload_def bindM_def returnM_def fmapM_def
        mapConcurrently_def demoStorage_def demoHandlers_def)
  moreover have "runQuery demoStorage demoHandlers
      \<lparr>sccReadOnlyMode = ReadOnlyModeEnabled, sccMaintenanceMode = MaintenanceModeDisabled\<rparr>
      (RQBulk [RQInsert 1, RQRunSql False]) 0 =
        Inl (err400 NotSupported ''Cannot run write queries when read-only mode is enabled'')"
    by (simp add: runQuery_def throw400_def)
  ultimately show ?thesis
    using concurrent_bulk_skips_read_only_guard [of "[RQInsert 1, RQRunSql False]"
        demoStorage demoHandlers
        "\<lparr>sccReadOnlyMode = ReadOnlyModeEnabled, sccMaintenanceMode = MaintenanceModeDisabled\<rparr>"]
    by simp
qed

section \<open>The tree of select types (Hasura.RQL.IR.Select)\<close>

subsection \<open>Types that the module imports\<close>

text \<open>
  The module is parameterised by the backend \<open>b\<close>. The types that the class \<open>Backend\<close>
  assigns to \<open>b\<close> (\<open>TableName b\<close>, \<open>Column b\<close>, \<open>ScalarType b\<close>, \<open>XRelay b\<close>, ...) and the
  plain types of other modules that hold no leaf value (\<open>ColumnInfo b\<close>, \<open>RelInfo b\<close>,
  \<open>StringifyNumbers\<close>, \<open>NamingCase\<close>, \<open>JsonAggSelect\<close>, ...) are declared outside the
  sources. One type parameter \<open>'b\<close> stands for all of them: a field of such a type holds
  a value of \<open>'b\<close>. No fold and no map looks into these fields.
\<close>

type_synonym Text = string

type_synonym Int64 = "64 word"

type_synonym FieldName = Text

text \<open>
  Modelled from the spec: the type \<open>Fields\<close> of \<open>Hasura.RQL.Types.Common\<close>, a mapping from
  output field name to field that is iterated in a fixed order ("field-map iteration
  order"): an association list.
\<close>

type_synonym 'a Fields = "(FieldName \<times> 'a) list"

text \<open>\<open>Data.List.NonEmpty\<close>: a head and a tail.\<close>

datatype 'a NonEmpty = NonEmpty (neHead: 'a) (neTail: "'a list")

text \<open>
  Modelled from the spec: the type constructors \<open>GBoolExp b\<close>, \<open>AnnBoolExpFld b\<close>,
  \<open>AnnColumnCaseBoolExpField b\<close>, \<open>FunctionArgumentExp b\<close>, \<open>NativeQuery b\<close> and
  \<open>OrderByItemG b\<close> are declared in modules that are not among the sources. The select
  module uses them only through their \<open>Functor\<close>, \<open>Foldable\<close> and \<open>Traversable\<close>
  instances, so each is taken as a parameter in the form of a container: a value is its
  shape (of type \<open>'b\<close>) together with the list of the elements it holds, in the order its
  fold visits them. The map keeps the shape and maps the elements; the fold folds the list.
\<close>

datatype (dead 'b, 'a) Imported = Imported (shape: 'b) (elems: "'a list")

type_synonym ('b, 'a) GBoolExp = "('b, 'a) Imported"
type_synonym ('b, 'v) AnnBoolExpFld = "('b, 'v) Imported"
type_synonym ('b, 'v) AnnColumnCaseBoolExpField = "('b, 'v) Imported"
type_synonym ('b, 'v) FunctionArgumentExp = "('b, 'v) Imported"
type_synonym ('b, 'v) NativeQuery = "('b, 'v) Imported"
type_synonym ('b, 'a) OrderByItemG = "('b, 'a) Imported"

type_synonym ('b, 'v) AnnBoolExp = "('b, ('b, 'v) AnnBoolExpFld) GBoolExp"
type_synonym ('b, 'v) AnnColumnCaseBoolExp = "('b, ('b, 'v) AnnColumnCaseBoolExpField) GBoolExp"

subsection \<open>Function arguments and \<open>insertFunctionArg\<close>\<close>

text \<open>
  \<open>FunctionArgsExpG\<close> is matched by \<open>insertFunctionArg\<close> as the constructor
  \<open>FunctionArgsExp positional named\<close>, with a list and a \<open>HashMap Text\<close>. The hash map is
  an association list (its order stands for the iteration order of the hash map, which
  the hash function decides), \<open>HM.insert\<close> is the update of the association list, and
  claims about it are stated on \<open>map_of\<close>.
\<close>

datatype FunctionArgName = FunctionArgName (getFuncArgNameTxt: Text)

datatype 'a FunctionArgsExpG =
  FunctionArgsExp (faePositional: "'a list") (faeNamed: "(Text \<times> 'a) list")

type_synonym ('b, 'v) FunctionArgsExp = "(('b, 'v) FunctionArgumentExp) FunctionArgsExpG"

text \<open>
  \<open>Data.Sequence.insertAt i x\<close>: at the front when \<open>i \<le> 0\<close>, at the end when \<open>i\<close> is at
  least the length, before the element of index \<open>i\<close> otherwise.
\<close>

definition Seq_insertAt :: "int \<Rightarrow> 'a \<Rightarrow> 'a list \<Rightarrow> 'a list" where
  "Seq_insertAt i x xs =
     (if i \<le> 0 then x # xs
      else if int (length xs) \<le> i then xs @ [x]
      else take (nat i) xs @ x # drop (nat i) xs)"

definition HM_insert :: "Text \<Rightarrow> 'a \<Rightarrow> (Text \<times> 'a) list \<Rightarrow> (Text \<times> 'a) list" where
  "HM_insert k v m = AList.update k v m"

text \<open>
  The index is an \<open>Int\<close>, a 64-bit machine integer: \<open>idx + 1\<close> wraps around, and the
  comparison with the length is signed.
\<close>

fun insertFunctionArg ::
  "FunctionArgName \<Rightarrow> Int64 \<Rightarrow> 'a \<Rightarrow> 'a FunctionArgsExpG \<Rightarrow> 'a FunctionArgsExpG" where
  "insertFunctionArg argName idx v (FunctionArgsExp positional named) =
     (if sint (idx + 1) \<le> int (length positional)
      then FunctionArgsExp (Seq_insertAt (sint idx) v positional) named
      else FunctionArgsExp positional (HM_insert (getFuncArgNameTxt argName) v named))"

lemma sint_succ:
  fixes idx :: Int64
  assumes "sint idx < 2 ^ 63 - 1"
  shows "sint (idx + 1) = sint idx + 1"
proof -
  have "- (2 ^ 63) \<le> sint idx" using sint_ge [of idx] by simp
  with assms show ?thesis
    by (simp add: signed_take_bit_int_eq_self sint_word_ariths)
qed

text \<open>
  C10. The comment of \<open>insertFunctionArg\<close> and the claim send an index beyond the
  positional arguments to the named arguments. At the largest index the code does not:
  for \<open>idx = 2 ^ 63 - 1\<close> and an empty positional list, \<open>idx + 1 \<le> length p\<close> is false,
  but the code computes \<open>idx + 1\<close> as \<open>- 2 ^ 63\<close>, takes the first branch and puts the
  value into the positional list, leaving the named arguments as they are.
\<close>

theorem insertFunctionArg_max_index:
  "0 \<le> sint (2 ^ 63 - 1 :: Int64)
   \<and> \<not> (sint (2 ^ 63 - 1 :: Int64) + 1 \<le> int (length ([] :: nat list)))
   \<and> insertFunctionArg (FunctionArgName ''x'') (2 ^ 63 - 1) (7 :: nat) (FunctionArgsExp [] [])
       = FunctionArgsExp [7] []
   \<and> insertFunctionArg (FunctionArgName ''x'') (2 ^ 63 - 1) (7 :: nat) (FunctionArgsExp [] [])
       \<noteq> FunctionArgsExp [] [(''x'', 7)]"
  by (simp add: Seq_insertAt_def)

text \<open>
  At every other non-negative index, \<open>0 \<le> idx < 2 ^ 63 - 1\<close>, the code does what its
  comment says. If \<open>idx + 1 \<le> length p\<close>, the positional list of the result is \<open>p\<close> with
  the value inserted at position \<open>idx\<close> (the elements before \<open>idx\<close> stay, the elements
  from \<open>idx\<close> on move one position to the right) and the named arguments are unchanged.
  Otherwise the positional list is unchanged and the named arguments, as a map, are those
  of \<open>n\<close> updated at the text of the argument name.
\<close>

theorem insertFunctionArg_spec:
  fixes idx :: Int64
  assumes "0 \<le> sint idx" and "sint idx < 2 ^ 63 - 1"
  shows "(sint idx + 1 \<le> int (length p) \<longrightarrow>
            insertFunctionArg argName idx v (FunctionArgsExp p n) =
              FunctionArgsExp (take (nat (sint idx)) p @ v # drop (nat (sint idx)) p) n)
       \<and> (\<not> sint idx + 1 \<le> int (length p) \<longrightarrow>
            faePositional (insertFunctionArg argName idx v (FunctionArgsExp p n)) = p
          \<and> map_of (faeNamed (insertFunctionArg argName idx v (FunctionArgsExp p n))) =
              (map_of n)(getFuncArgNameTxt argName \<mapsto> v))"
  using assms by (auto simp: sint_succ Seq_insertAt_def HM_insert_def update_conv')

theorem insertFunctionArg_spec_witness:
  "insertFunctionArg (FunctionArgName ''x'') 1 (7 :: nat)
      (FunctionArgsExp [10, 20, 30] [(''y'', 1)]) = FunctionArgsExp [10, 7, 20, 30] [(''y'', 1)]
   \<and> faePositional (insertFunctionArg (FunctionArgName ''x'') 3 (7 :: nat)
      (FunctionArgsExp [10, 20, 30] [(''x'', 1)])) = [10, 20, 30]
   \<and> map_of (faeNamed (insertFunctionArg (FunctionArgName ''x'') 3 (7 :: nat)
      (FunctionArgsExp [10, 20, 30] [(''x'', 1)]))) ''x'' = Some 7"
  using insertFunctionArg_spec [of 1 "[10, 20, 30 :: nat]" "FunctionArgName ''x''" 7 "[(''y'', 1)]"]
    insertFunctionArg_spec [of 3 "[10, 20, 30 :: nat]" "FunctionArgName ''x''" 7 "[(''x'', 1)]"]
  by simp

subsection \<open>Order by\<close>

datatype 'b AnnotatedAggregateOrderBy = AAOCount | AAOOp Text 'b 'b

datatype (dead 'b, 'v) ComputedFieldOrderByElement
  = CFOBEScalar 'b
  | CFOBETableAggregation 'b "('b, 'v) AnnBoolExp" "'b AnnotatedAggregateOrderBy"

datatype (dead 'b, 'v) ComputedFieldOrderBy = ComputedFieldOrderBy
  (cfobXField: 'b)
  (cfobName: Text)
  (cfobFunction: 'b)
  (cfobFunctionArgsExp: "('b, 'v) FunctionArgsExp")
  (cfobOrderByElement: "('b, 'v) ComputedFieldOrderByElement")

datatype (dead 'b, 'v) AnnotatedOrderByElement
  = AOCColumn 'b
  | AOCObjectRelation 'b "('b, 'v) AnnBoolExp" "('b, 'v) AnnotatedOrderByElement"
  | AOCArrayAggregation 'b "('b, 'v) AnnBoolExp" "'b AnnotatedAggregateOrderBy"
  | AOCComputedField "('b, 'v) ComputedFieldOrderBy"

type_synonym ('b, 'v) AnnotatedOrderByItemG = "('b, ('b, 'v) AnnotatedOrderByElement) OrderByItemG"

datatype 'b StreamCursorItem = StreamCursorItem
  (sciOrdering: 'b)
  (sciColInfo: 'b)
  (sciInitialValue: 'b)

subsection \<open>From clause, arguments, permissions and the select\<close>

datatype FIIdentifier = FIIdentifier (unFIIdentifier: Text)

datatype (dead 'b, 'v) SelectFromG
  = FromTable 'b
  | FromIdentifier FIIdentifier
  | FromFunction 'b "('b, 'v) FunctionArgsExp" "('b \<times> 'b) list option"
  | FromNativeQuery "('b, 'v) NativeQuery"

datatype (dead 'b, 'v) SelectStreamArgsG = SelectStreamArgsG
  (ssaWhere: "('b, 'v) AnnBoolExp option")
  (ssaBatchSize: Int64)
  (ssaCursorArg: "'b StreamCursorItem")

datatype (dead 'b, 'v) SelectArgsG = SelectArgs
  (saWhere: "('b, 'v) AnnBoolExp option")
  (saOrderBy: "('b, 'v) AnnotatedOrderByItemG NonEmpty option")
  (saLimit: "Int64 option")
  (saOffset: "Int64 option")
  (saDistinct: "'b NonEmpty option")

datatype (dead 'b, 'v) TablePermG = TablePerm
  (tpFilter: "('b, 'v) AnnBoolExp")
  (tpLimit: "Int64 option")

text \<open>
  \<open>AnnSelectG b f v\<close> holds fields of type \<open>f v\<close>. The parameter \<open>'fv\<close> is the type
  \<open>f v\<close> of the fields.
\<close>

datatype (dead 'b, 'fv, 'v) AnnSelectG = AnnSelectG
  (asnFields: "'fv Fields")
  (asnFrom: "('b, 'v) SelectFromG")
  (asnPerm: "('b, 'v) TablePermG")
  (asnArgs: "('b, 'v) SelectArgsG")
  (asnStrfyNum: 'b)
  (asnNamingConvention: "'b option")

datatype (dead 'b, 'fv, 'v) AnnSelectStreamG = AnnSelectStreamG
  (assnXStreamingSubscription: 'b)
  (assnFields: "'fv Fields")
  (assnFrom: "('b, 'v) SelectFromG")
  (assnPerm: "('b, 'v) TablePermG")
  (assnArgs: "('b, 'v) SelectStreamArgsG")
  (assnStrfyNum: 'b)

subsection \<open>Relay select\<close>

datatype ConnectionSplitKind = CSKBefore | CSKAfter

datatype ConnectionSlice = SliceFirst Int64 | SliceLast Int64

datatype (dead 'b, 'v) ConnectionSplit = ConnectionSplit
  (csKind: ConnectionSplitKind)
  (csValue: 'v)
  (csOrderBy: "('b, ('b, 'v) AnnotatedOrderByElement) OrderByItemG")

subsection \<open>Fields\<close>

datatype (dead 'b, 'v) AnnColumnField = AnnColumnField
  (acfColumn: 'b)
  (acfType: 'b)
  (acfAsText: bool)
  (acfArguments: "'b option")
  (acfCaseBoolExpression: "('b, 'v) AnnColumnCaseBoolExp option")

datatype (dead 'b, 'v) ComputedFieldScalarSelect = ComputedFieldScalarSelect
  (cfssFunction: 'b)
  (cfssArguments: "('b, 'v) FunctionArgsExp")
  (cfssType: 'b)
  (cfssScalarArguments: "'b option")

datatype (dead 'b, 'a) AnnRelationSelectG = AnnRelationSelectG
  (aarRelationshipName: Text)
  (aarColumnMapping: "('b \<times> 'b) list")
  (aarAnnSelect: 'a)

datatype (dead 'b, 'r) RemoteRelationshipSelect = RemoteRelationshipSelect
  (rrsLHSJoinFields: "(FieldName \<times> 'b) list")
  (rrsRelationship: 'r)

datatype PageInfoField
  = PageInfoTypename Text
  | PageInfoHasNextPage
  | PageInfoHasPreviousPage
  | PageInfoStartCursor
  | PageInfoEndCursor

datatype 'b ColFld = CFCol 'b 'b | CFExp Text

datatype 'b AggregateOp = AggregateOp (aoOp: Text) (aoFields: "'b ColFld Fields")

datatype 'b AggregateField = AFCount 'b | AFOp "'b AggregateOp" | AFExp Text

text \<open>
  The field, its relationships, the aggregate and relay fields and the connection select
  refer to one another.
\<close>

datatype (dead 'b, 'r, 'v) AnnFieldG
  = AFColumn "('b, 'v) AnnColumnField"
  | AFObjectRelation "('b, ('b, 'r, 'v) AnnObjectSelectG) AnnRelationSelectG"
  | AFArrayRelation "('b, 'r, 'v) ArraySelectG"
  | AFComputedField 'b Text "('b, 'r, 'v) ComputedFieldSelect"
  | AFRemote "('b, 'r) RemoteRelationshipSelect"
  | AFNodeId 'b Text 'b 'b
  | AFExpression Text
and (dead 'b, 'r, 'v) AnnObjectSelectG = AnnObjectSelectG
  (aosFields: "('b, 'r, 'v) AnnFieldG Fields")
  (aosTableFrom: 'b)
  (aosTableFilter: "('b, 'v) AnnBoolExp")
and (dead 'b, 'r, 'v) ArraySelectG
  = ASSimple "('b, ('b, ('b, 'r, 'v) AnnFieldG, 'v) AnnSelectG) AnnRelationSelectG"
  | ASAggregate "('b, ('b, ('b, 'r, 'v) TableAggregateFieldG, 'v) AnnSelectG) AnnRelationSelectG"
  | ASConnection "('b, ('b, 'r, 'v) ConnectionSelect) AnnRelationSelectG"
and (dead 'b, 'r, 'v) ComputedFieldSelect
  = CFSScalar "('b, 'v) ComputedFieldScalarSelect" "('b, 'v) AnnColumnCaseBoolExp option"
  | CFSTable 'b "('b, ('b, 'r, 'v) AnnFieldG, 'v) AnnSelectG"
and (dead 'b, 'r, 'v) TableAggregateFieldG
  = TAFAgg "'b AggregateField Fields"
  | TAFNodes 'b "('b, 'r, 'v) AnnFieldG Fields"
  | TAFExp Text
and (dead 'b, 'r, 'v) ConnectionSelect = ConnectionSelect
  (csXRelay: 'b)
  (csPrimaryKeyColumns: 'b)
  (csSplit: "('b, 'v) ConnectionSplit NonEmpty option")
  (csSlice: "ConnectionSlice option")
  (csSelect: "('b, ('b, 'r, 'v) ConnectionField, 'v) AnnSelectG")
and (dead 'b, 'r, 'v) ConnectionField
  = ConnectionTypename Text
  | ConnectionPageInfo "PageInfoField Fields"
  | ConnectionEdges "('b, 'r, 'v) EdgeField Fields"
and (dead 'b, 'r, 'v) EdgeField
  = EdgeTypename Text
  | EdgeCursor
  | EdgeNode "('b, 'r, 'v) AnnFieldG Fields"

subsection \<open>Root selection\<close>

datatype (dead 'b, 'r, 'v) QueryDB
  = QDBMultipleRows "('b, ('b, 'r, 'v) AnnFieldG, 'v) AnnSelectG"
  | QDBSingleRow "('b, ('b, 'r, 'v) AnnFieldG, 'v) AnnSelectG"
  | QDBAggregation "('b, ('b, 'r, 'v) TableAggregateFieldG, 'v) AnnSelectG"
  | QDBConnection "('b, 'r, 'v) ConnectionSelect"
  | QDBStreamMultipleRows "('b, ('b, 'r, 'v) AnnFieldG, 'v) AnnSelectStreamG"

section \<open>Folds over the select tree\<close>

subsection \<open>Monoids and the folds of the library types\<close>

text \<open>
  A fold maps into any \<open>Monoid m\<close>. The class \<open>monoid_add\<close> is that class: \<open>0\<close> is
  \<open>mempty\<close> and \<open>+\<close> is the operation of the monoid, associative and not assumed commutative. The
  natural numbers with addition count visits. The free monoid of lists records visits in
  their order: \<open>Visits xs + Visits ys = Visits (xs @ ys)\<close>.
\<close>

datatype 'a Visits = Visits (visited: "'a list")

instantiation Visits :: (type) monoid_add
begin

definition zero_Visits :: "'a Visits" where
  "zero_Visits = Visits []"

definition plus_Visits :: "'a Visits \<Rightarrow> 'a Visits \<Rightarrow> 'a Visits" where
  "plus_Visits a b = Visits (visited a @ visited b)"

instance
  by standard (simp_all add: zero_Visits_def plus_Visits_def)

end

lemma visited_simps [simp]:
  "visited 0 = []" "visited (a + b) = visited a @ visited b"
  by (simp_all add: zero_Visits_def plus_Visits_def)

text \<open>
  \<open>foldMap\<close> of the \<open>Foldable\<close> instances of lists, pairs (the second component),
  \<open>Maybe\<close>, \<open>NonEmpty\<close>, of the imported containers, of \<open>FunctionArgsExpG\<close> (the positional
  arguments, then the named ones), and the derived instances of \<open>AnnRelationSelectG\<close> and
  \<open>RemoteRelationshipSelect\<close>, whose last field is the only one of the element type.
\<close>

definition foldMap_list :: "('a \<Rightarrow> 'm::monoid_add) \<Rightarrow> 'a list \<Rightarrow> 'm" where
  "foldMap_list f xs = sum_list (map f xs)"

fun foldMap_prod :: "('a \<Rightarrow> 'm::monoid_add) \<Rightarrow> 'k \<times> 'a \<Rightarrow> 'm" where
  "foldMap_prod f (k, a) = f a"

fun foldMap_option :: "('a \<Rightarrow> 'm::monoid_add) \<Rightarrow> 'a option \<Rightarrow> 'm" where
  "foldMap_option f None = 0"
| "foldMap_option f (Some a) = f a"

fun foldMap_NonEmpty :: "('a \<Rightarrow> 'm::monoid_add) \<Rightarrow> 'a NonEmpty \<Rightarrow> 'm" where
  "foldMap_NonEmpty f (NonEmpty a as) = f a + foldMap_list f as"

fun foldMap_Imported :: "('a \<Rightarrow> 'm::monoid_add) \<Rightarrow> ('b, 'a) Imported \<Rightarrow> 'm" where
  "foldMap_Imported f (Imported s as) = foldMap_list f as"

fun foldMap_FunctionArgsExpG :: "('a \<Rightarrow> 'm::monoid_add) \<Rightarrow> 'a FunctionArgsExpG \<Rightarrow> 'm" where
  "foldMap_FunctionArgsExpG f (FunctionArgsExp positional named) =
     foldMap_list f positional + foldMap_list (foldMap_prod f) named"

fun foldMap_AnnRelationSelectG ::
  "('a \<Rightarrow> 'm::monoid_add) \<Rightarrow> ('b, 'a) AnnRelationSelectG \<Rightarrow> 'm" where
  "foldMap_AnnRelationSelectG f (AnnRelationSelectG n m a) = f a"

fun foldMap_RemoteRelationshipSelect ::
  "('r \<Rightarrow> 'm::monoid_add) \<Rightarrow> ('b, 'r) RemoteRelationshipSelect \<Rightarrow> 'm" where
  "foldMap_RemoteRelationshipSelect f (RemoteRelationshipSelect j r) = f r"

subsection \<open>The derived \<open>Foldable\<close> instances\<close>

text \<open>
  \<open>deriving stock Foldable\<close> folds the fields of a constructor from left to right and
  skips the fields whose type does not mention the last type parameter. \<open>AnnBoolExp b v\<close>
  is \<open>GBoolExp b (AnnBoolExpFld b v)\<close>, so its fold is the fold of one container inside the
  fold of the other; \<open>FunctionArgsExp b v\<close> is
  \<open>FunctionArgsExpG (FunctionArgumentExp b v)\<close>.
\<close>

abbreviation foldMap_AnnBoolExp :: "('v \<Rightarrow> 'm::monoid_add) \<Rightarrow> ('b, 'v) AnnBoolExp \<Rightarrow> 'm" where
  "foldMap_AnnBoolExp g \<equiv> foldMap_Imported (foldMap_Imported g)"

abbreviation foldMap_FunctionArgsExp ::
  "('v \<Rightarrow> 'm::monoid_add) \<Rightarrow> ('b, 'v) FunctionArgsExp \<Rightarrow> 'm" where
  "foldMap_FunctionArgsExp g \<equiv> foldMap_FunctionArgsExpG (foldMap_Imported g)"

fun foldMap_ComputedFieldOrderByElement ::
  "('v \<Rightarrow> 'm::monoid_add) \<Rightarrow> ('b, 'v) ComputedFieldOrderByElement \<Rightarrow> 'm" where
  "foldMap_ComputedFieldOrderByElement g (CFOBEScalar t) = 0"
| "foldMap_ComputedFieldOrderByElement g (CFOBETableAggregation t p a) = foldMap_AnnBoolExp g p"

fun foldMap_ComputedFieldOrderBy ::
  "('v \<Rightarrow> 'm::monoid_add) \<Rightarrow> ('b, 'v) ComputedFieldOrderBy \<Rightarrow> 'm" where
  "foldMap_ComputedFieldOrderBy g (ComputedFieldOrderBy x n fn args e) =
     foldMap_FunctionArgsExp g args + foldMap_ComputedFieldOrderByElement g e"

fun foldMap_AnnotatedOrderByElement ::
  "('v \<Rightarrow> 'm::monoid_add) \<Rightarrow> ('b, 'v) AnnotatedOrderByElement \<Rightarrow> 'm" where
  "foldMap_AnnotatedOrderByElement g (AOCColumn c) = 0"
| "foldMap_AnnotatedOrderByElement g (AOCObjectRelation r p e) =
     foldMap_AnnBoolExp g p + foldMap_AnnotatedOrderByElement g e"
| "foldMap_AnnotatedOrderByElement g (AOCArrayAggregation r p a) = foldMap_AnnBoolExp g p"
| "foldMap_AnnotatedOrderByElement g (AOCComputedField c) = foldMap_ComputedFieldOrderBy g c"

fun foldMap_SelectFromG :: "('v \<Rightarrow> 'm::monoid_add) \<Rightarrow> ('b, 'v) SelectFromG \<Rightarrow> 'm" where
  "foldMap_SelectFromG g (FromTable t) = 0"
| "foldMap_SelectFromG g (FromIdentifier i) = 0"
| "foldMap_SelectFromG g (FromFunction n args defs) = foldMap_FunctionArgsExp g args"
| "foldMap_SelectFromG g (FromNativeQuery q) = foldMap_Imported g q"

fun foldMap_SelectStreamArgsG ::
  "('v \<Rightarrow> 'm::monoid_add) \<Rightarrow> ('b, 'v) SelectStreamArgsG \<Rightarrow> 'm" where
  "foldMap_SelectStreamArgsG g (SelectStreamArgsG w n c) = foldMap_option (foldMap_AnnBoolExp g) w"

fun foldMap_SelectArgsG :: "('v \<Rightarrow> 'm::monoid_add) \<Rightarrow> ('b, 'v) SelectArgsG \<Rightarrow> 'm" where
  "foldMap_SelectArgsG g (SelectArgs w ob l off d) =
     foldMap_option (foldMap_AnnBoolExp g) w
     + foldMap_option (foldMap_NonEmpty (foldMap_Imported (foldMap_AnnotatedOrderByElement g))) ob"

fun foldMap_TablePermG :: "('v \<Rightarrow> 'm::monoid_add) \<Rightarrow> ('b, 'v) TablePermG \<Rightarrow> 'm" where
  "foldMap_TablePermG g (TablePerm p l) = foldMap_AnnBoolExp g p"

fun foldMap_ConnectionSplit :: "('v \<Rightarrow> 'm::monoid_add) \<Rightarrow> ('b, 'v) ConnectionSplit \<Rightarrow> 'm" where
  "foldMap_ConnectionSplit g (ConnectionSplit k v ob) =
     g v + foldMap_Imported (foldMap_AnnotatedOrderByElement g) ob"

fun foldMap_AnnColumnField :: "('v \<Rightarrow> 'm::monoid_add) \<Rightarrow> ('b, 'v) AnnColumnField \<Rightarrow> 'm" where
  "foldMap_AnnColumnField g (AnnColumnField c t a args cbe) =
     foldMap_option (foldMap_Imported (foldMap_Imported g)) cbe"

fun foldMap_ComputedFieldScalarSelect ::
  "('v \<Rightarrow> 'm::monoid_add) \<Rightarrow> ('b, 'v) ComputedFieldScalarSelect \<Rightarrow> 'm" where
  "foldMap_ComputedFieldScalarSelect g (ComputedFieldScalarSelect fn args t sargs) =
     foldMap_FunctionArgsExp g args"

subsection \<open>The hand-written folds over both parameters\<close>

text \<open>
  \<open>bifoldMapAnnSelectG\<close> has the constraint \<open>Bifoldable (f b)\<close>: the \<open>bifoldMap\<close> of the
  field type is its first argument here.
\<close>

fun bifoldMapAnnSelectG ::
  "(('r \<Rightarrow> 'm) \<Rightarrow> ('v \<Rightarrow> 'm) \<Rightarrow> 'fv \<Rightarrow> 'm::monoid_add) \<Rightarrow>
   ('r \<Rightarrow> 'm) \<Rightarrow> ('v \<Rightarrow> 'm) \<Rightarrow> ('b, 'fv, 'v) AnnSelectG \<Rightarrow> 'm" where
  "bifoldMapAnnSelectG bifoldMap f g (AnnSelectG flds frm perm args sn nc) =
     foldMap_list (foldMap_prod (bifoldMap f g)) flds
     + foldMap_SelectFromG g frm
     + foldMap_TablePermG g perm
     + foldMap_SelectArgsG g args"

fun bifoldMapAnnSelectStreamG ::
  "(('r \<Rightarrow> 'm) \<Rightarrow> ('v \<Rightarrow> 'm) \<Rightarrow> 'fv \<Rightarrow> 'm::monoid_add) \<Rightarrow>
   ('r \<Rightarrow> 'm) \<Rightarrow> ('v \<Rightarrow> 'm) \<Rightarrow> ('b, 'fv, 'v) AnnSelectStreamG \<Rightarrow> 'm" where
  "bifoldMapAnnSelectStreamG bifoldMap f g (AnnSelectStreamG x flds frm perm args sn) =
     foldMap_list (foldMap_prod (bifoldMap f g)) flds
     + foldMap_SelectFromG g frm
     + foldMap_TablePermG g perm
     + foldMap_SelectStreamArgsG g args"

text \<open>
  The \<open>Bifoldable\<close> instances of the eight types that refer to one another, one function
  per instance. The recursion goes through the fields of a select, through a relationship
  and through lists of named fields; a primitive recursion states such a call as the map of
  the recursive function over the container, followed by the fold of the results. The
  equations as the source writes them are the lemmas that follow the definition.
\<close>

primrec bifoldMap_AnnFieldG ::
    "('r \<Rightarrow> 'm) \<Rightarrow> ('v \<Rightarrow> 'm) \<Rightarrow> ('b, 'r, 'v) AnnFieldG \<Rightarrow> 'm::monoid_add"
  and bifoldMap_AnnObjectSelectG ::
    "('r \<Rightarrow> 'm) \<Rightarrow> ('v \<Rightarrow> 'm) \<Rightarrow> ('b, 'r, 'v) AnnObjectSelectG \<Rightarrow> 'm"
  and bifoldMap_ArraySelectG ::
    "('r \<Rightarrow> 'm) \<Rightarrow> ('v \<Rightarrow> 'm) \<Rightarrow> ('b, 'r, 'v) ArraySelectG \<Rightarrow> 'm"
  and bifoldMap_ComputedFieldSelect ::
    "('r \<Rightarrow> 'm) \<Rightarrow> ('v \<Rightarrow> 'm) \<Rightarrow> ('b, 'r, 'v) ComputedFieldSelect \<Rightarrow> 'm"
  and bifoldMap_TableAggregateFieldG ::
    "('r \<Rightarrow> 'm) \<Rightarrow> ('v \<Rightarrow> 'm) \<Rightarrow> ('b, 'r, 'v) TableAggregateFieldG \<Rightarrow> 'm"
  and bifoldMap_ConnectionSelect ::
    "('r \<Rightarrow> 'm) \<Rightarrow> ('v \<Rightarrow> 'm) \<Rightarrow> ('b, 'r, 'v) ConnectionSelect \<Rightarrow> 'm"
  and bifoldMap_ConnectionField ::
    "('r \<Rightarrow> 'm) \<Rightarrow> ('v \<Rightarrow> 'm) \<Rightarrow> ('b, 'r, 'v) ConnectionField \<Rightarrow> 'm"
  and bifoldMap_EdgeField ::
    "('r \<Rightarrow> 'm) \<Rightarrow> ('v \<Rightarrow> 'm) \<Rightarrow> ('b, 'r, 'v) EdgeField \<Rightarrow> 'm"
where
  "bifoldMap_AnnFieldG f g (AFColumn col) = foldMap_AnnColumnField g col"
| "bifoldMap_AnnFieldG f g (AFObjectRelation objRel) =
     foldMap_AnnRelationSelectG id (map_AnnRelationSelectG (bifoldMap_AnnObjectSelectG f g) objRel)"
| "bifoldMap_AnnFieldG f g (AFArrayRelation arrRel) = bifoldMap_ArraySelectG f g arrRel"
| "bifoldMap_AnnFieldG f g (AFComputedField x n cf) = bifoldMap_ComputedFieldSelect f g cf"
| "bifoldMap_AnnFieldG f g (AFRemote r) = foldMap_RemoteRelationshipSelect f r"
| "bifoldMap_AnnFieldG f g (AFNodeId x s t pk) = 0"
| "bifoldMap_AnnFieldG f g (AFExpression e) = 0"
| "bifoldMap_AnnObjectSelectG f g (AnnObjectSelectG flds frm flt) =
     foldMap_list (foldMap_prod id) (map (map_prod id (bifoldMap_AnnFieldG f g)) flds)
     + foldMap_Imported (foldMap_Imported g) flt"
| "bifoldMap_ArraySelectG f g (ASSimple arrayRelationSelect) =
     foldMap_AnnRelationSelectG (bifoldMapAnnSelectG (\<lambda>_ _. id) f g)
       (map_AnnRelationSelectG (map_AnnSelectG (bifoldMap_AnnFieldG f g) id) arrayRelationSelect)"
| "bifoldMap_ArraySelectG f g (ASAggregate arrayAggregateSelect) =
     foldMap_AnnRelationSelectG (bifoldMapAnnSelectG (\<lambda>_ _. id) f g)
       (map_AnnRelationSelectG (map_AnnSelectG (bifoldMap_TableAggregateFieldG f g) id)
          arrayAggregateSelect)"
| "bifoldMap_ArraySelectG f g (ASConnection arrayConnectionSelect) =
     foldMap_AnnRelationSelectG id
       (map_AnnRelationSelectG (bifoldMap_ConnectionSelect f g) arrayConnectionSelect)"
| "bifoldMap_ComputedFieldSelect f g (CFSScalar cfsSelect caseBoolExp) =
     foldMap_ComputedFieldScalarSelect g cfsSelect
     + foldMap_option (foldMap_Imported (foldMap_Imported g)) caseBoolExp"
| "bifoldMap_ComputedFieldSelect f g (CFSTable j simpleSelect) =
     bifoldMapAnnSelectG (\<lambda>_ _. id) f g (map_AnnSelectG (bifoldMap_AnnFieldG f g) id simpleSelect)"
| "bifoldMap_TableAggregateFieldG f g (TAFAgg a) = 0"
| "bifoldMap_TableAggregateFieldG f g (TAFNodes x flds) =
     foldMap_list (foldMap_prod id) (map (map_prod id (bifoldMap_AnnFieldG f g)) flds)"
| "bifoldMap_TableAggregateFieldG f g (TAFExp e) = 0"
| "bifoldMap_ConnectionSelect f g (ConnectionSelect x pk splt slc sel) =
     foldMap_option (foldMap_NonEmpty (foldMap_ConnectionSplit g)) splt
     + bifoldMapAnnSelectG (\<lambda>_ _. id) f g (map_AnnSelectG (bifoldMap_ConnectionField f g) id sel)"
| "bifoldMap_ConnectionField f g (ConnectionTypename t) = 0"
| "bifoldMap_ConnectionField f g (ConnectionPageInfo p) = 0"
| "bifoldMap_ConnectionField f g (ConnectionEdges edgeFields) =
     foldMap_list (foldMap_prod id) (map (map_prod id (bifoldMap_EdgeField f g)) edgeFields)"
| "bifoldMap_EdgeField f g (EdgeTypename t) = 0"
| "bifoldMap_EdgeField f g EdgeCursor = 0"
| "bifoldMap_EdgeField f g (EdgeNode annFields) =
     foldMap_list (foldMap_prod id) (map (map_prod id (bifoldMap_AnnFieldG f g)) annFields)"

lemma foldMap_list_map: "foldMap_list h (map k xs) = foldMap_list (\<lambda>x. h (k x)) xs"
  by (simp add: foldMap_list_def comp_def)

lemma foldMap_prod_map_prod: "foldMap_prod id (map_prod id h p) = foldMap_prod h p"
  by (cases p) simp

lemma foldMap_Fields_map:
  "foldMap_list (foldMap_prod id) (map (map_prod id h) flds) = foldMap_list (foldMap_prod h) flds"
  by (simp add: foldMap_list_map foldMap_prod_map_prod)

lemma foldMap_AnnRelationSelectG_map:
  "foldMap_AnnRelationSelectG h (map_AnnRelationSelectG k rel) =
   foldMap_AnnRelationSelectG (\<lambda>x. h (k x)) rel"
  by (cases rel) simp

lemma bifoldMapAnnSelectG_map:
  "bifoldMapAnnSelectG (\<lambda>_ _. id) f g (map_AnnSelectG (bf f g) id sel) =
   bifoldMapAnnSelectG bf f g sel"
  by (cases sel) (simp add: foldMap_Fields_map SelectFromG.map_id TablePermG.map_id SelectArgsG.map_id)

lemmas bifoldMap_fusion =
  foldMap_Fields_map foldMap_AnnRelationSelectG_map bifoldMapAnnSelectG_map

text \<open>The equations of the instances, as the source writes them.\<close>

lemma bifoldMap_AFObjectRelation:
  "bifoldMap_AnnFieldG f g (AFObjectRelation objRel) =
   foldMap_AnnRelationSelectG (bifoldMap_AnnObjectSelectG f g) objRel"
  by (simp add: foldMap_AnnRelationSelectG_map)

lemma bifoldMap_AnnObjectSelectG_eq:
  "bifoldMap_AnnObjectSelectG f g (AnnObjectSelectG flds frm flt) =
   foldMap_list (foldMap_prod (bifoldMap_AnnFieldG f g)) flds
   + foldMap_Imported (foldMap_Imported g) flt"
  by (simp add: foldMap_Fields_map)

lemma bifoldMap_ASSimple:
  "bifoldMap_ArraySelectG f g (ASSimple arrayRelationSelect) =
   foldMap_AnnRelationSelectG (bifoldMapAnnSelectG bifoldMap_AnnFieldG f g) arrayRelationSelect"
  by (simp add: foldMap_AnnRelationSelectG_map bifoldMapAnnSelectG_map)

lemma bifoldMap_ASAggregate:
  "bifoldMap_ArraySelectG f g (ASAggregate arrayAggregateSelect) =
   foldMap_AnnRelationSelectG (bifoldMapAnnSelectG bifoldMap_TableAggregateFieldG f g)
     arrayAggregateSelect"
  by (simp add: foldMap_AnnRelationSelectG_map bifoldMapAnnSelectG_map)

lemma bifoldMap_ASConnection:
  "bifoldMap_ArraySelectG f g (ASConnection arrayConnectionSelect) =
   foldMap_AnnRelationSelectG (bifoldMap_ConnectionSelect f g) arrayConnectionSelect"
  by (simp add: foldMap_AnnRelationSelectG_map)

lemma bifoldMap_CFSTable:
  "bifoldMap_ComputedFieldSelect f g (CFSTable j simpleSelect) =
   bifoldMapAnnSelectG bifoldMap_AnnFieldG f g simpleSelect"
  by (simp add: bifoldMapAnnSelectG_map)

lemma bifoldMap_TAFNodes:
  "bifoldMap_TableAggregateFieldG f g (TAFNodes x flds) =
   foldMap_list (foldMap_prod (bifoldMap_AnnFieldG f g)) flds"
  by (simp add: foldMap_Fields_map)

lemma bifoldMap_ConnectionSelect_eq:
  "bifoldMap_ConnectionSelect f g (ConnectionSelect x pk splt slc sel) =
   foldMap_option (foldMap_NonEmpty (foldMap_ConnectionSplit g)) splt
   + bifoldMapAnnSelectG bifoldMap_ConnectionField f g sel"
  by (simp add: bifoldMapAnnSelectG_map)

lemma bifoldMap_ConnectionEdges:
  "bifoldMap_ConnectionField f g (ConnectionEdges edgeFields) =
   foldMap_list (foldMap_prod (bifoldMap_EdgeField f g)) edgeFields"
  by (simp add: foldMap_Fields_map)

lemma bifoldMap_EdgeNode:
  "bifoldMap_EdgeField f g (EdgeNode annFields) =
   foldMap_list (foldMap_prod (bifoldMap_AnnFieldG f g)) annFields"
  by (simp add: foldMap_Fields_map)

text \<open>The instance of the root.\<close>

fun bifoldMap_QueryDB ::
  "('r \<Rightarrow> 'm) \<Rightarrow> ('v \<Rightarrow> 'm) \<Rightarrow> ('b, 'r, 'v) QueryDB \<Rightarrow> 'm::monoid_add" where
  "bifoldMap_QueryDB f g (QDBMultipleRows annSel) = bifoldMapAnnSelectG bifoldMap_AnnFieldG f g annSel"
| "bifoldMap_QueryDB f g (QDBSingleRow annSel) = bifoldMapAnnSelectG bifoldMap_AnnFieldG f g annSel"
| "bifoldMap_QueryDB f g (QDBAggregation annSel) =
     bifoldMapAnnSelectG bifoldMap_TableAggregateFieldG f g annSel"
| "bifoldMap_QueryDB f g (QDBConnection connSel) = bifoldMap_ConnectionSelect f g connSel"
| "bifoldMap_QueryDB f g (QDBStreamMultipleRows annSel) =
     bifoldMapAnnSelectStreamG bifoldMap_AnnFieldG f g annSel"

subsection \<open>Permissions and arguments\<close>

text \<open>
  The constant \<open>annBoolExpTrue\<close> is imported from \<open>Hasura.RQL.IR.BoolExp\<close>, which is not
  among the sources: it is the argument of \<open>noTablePermissions\<close>.
\<close>

definition noTablePermissions :: "('b, 'v) AnnBoolExp \<Rightarrow> ('b, 'v) TablePermG" where
  "noTablePermissions annBoolExpTrue = TablePerm annBoolExpTrue None"

definition noSelectArgs :: "('b, 'v) SelectArgsG" where
  "noSelectArgs = SelectArgs None None None None None"

subsection \<open>The derived \<open>Functor\<close> instances\<close>

text \<open>
  \<open>deriving stock Functor\<close> maps the function over every occurrence of the last type
  parameter and keeps everything else. This is the map function of the datatype, with the
  identity on the remote parameter \<open>r\<close> where the type has one.
\<close>

definition fmap_QueryDB :: "('v \<Rightarrow> 'w) \<Rightarrow> ('b, 'r, 'v) QueryDB \<Rightarrow> ('b, 'r, 'w) QueryDB" where
  "fmap_QueryDB h = map_QueryDB id h"

definition fmap_AnnFieldG :: "('v \<Rightarrow> 'w) \<Rightarrow> ('b, 'r, 'v) AnnFieldG \<Rightarrow> ('b, 'r, 'w) AnnFieldG" where
  "fmap_AnnFieldG h = map_AnnFieldG id h"

definition fmap_AnnObjectSelectG :: "('v \<Rightarrow> 'w) \<Rightarrow> ('b, 'r, 'v) AnnObjectSelectG \<Rightarrow> ('b, 'r, 'w) AnnObjectSelectG" where
  "fmap_AnnObjectSelectG h = map_AnnObjectSelectG id h"

definition fmap_ArraySelectG :: "('v \<Rightarrow> 'w) \<Rightarrow> ('b, 'r, 'v) ArraySelectG \<Rightarrow> ('b, 'r, 'w) ArraySelectG" where
  "fmap_ArraySelectG h = map_ArraySelectG id h"

definition fmap_ComputedFieldSelect :: "('v \<Rightarrow> 'w) \<Rightarrow> ('b, 'r, 'v) ComputedFieldSelect \<Rightarrow> ('b, 'r, 'w) ComputedFieldSelect" where
  "fmap_ComputedFieldSelect h = map_ComputedFieldSelect id h"

definition fmap_TableAggregateFieldG :: "('v \<Rightarrow> 'w) \<Rightarrow> ('b, 'r, 'v) TableAggregateFieldG \<Rightarrow> ('b, 'r, 'w) TableAggregateFieldG" where
  "fmap_TableAggregateFieldG h = map_TableAggregateFieldG id h"

definition fmap_ConnectionSelect :: "('v \<Rightarrow> 'w) \<Rightarrow> ('b, 'r, 'v) ConnectionSelect \<Rightarrow> ('b, 'r, 'w) ConnectionSelect" where
  "fmap_ConnectionSelect h = map_ConnectionSelect id h"

definition fmap_ConnectionField :: "('v \<Rightarrow> 'w) \<Rightarrow> ('b, 'r, 'v) ConnectionField \<Rightarrow> ('b, 'r, 'w) ConnectionField" where
  "fmap_ConnectionField h = map_ConnectionField id h"

definition fmap_EdgeField :: "('v \<Rightarrow> 'w) \<Rightarrow> ('b, 'r, 'v) EdgeField \<Rightarrow> ('b, 'r, 'w) EdgeField" where
  "fmap_EdgeField h = map_EdgeField id h"

definition fmap_ConnectionSplit :: "('v \<Rightarrow> 'w) \<Rightarrow> ('b, 'v) ConnectionSplit \<Rightarrow> ('b, 'w) ConnectionSplit" where
  "fmap_ConnectionSplit h = map_ConnectionSplit h"

definition fmap_SelectFromG :: "('v \<Rightarrow> 'w) \<Rightarrow> ('b, 'v) SelectFromG \<Rightarrow> ('b, 'w) SelectFromG" where
  "fmap_SelectFromG h = map_SelectFromG h"

definition fmap_SelectArgsG :: "('v \<Rightarrow> 'w) \<Rightarrow> ('b, 'v) SelectArgsG \<Rightarrow> ('b, 'w) SelectArgsG" where
  "fmap_SelectArgsG h = map_SelectArgsG h"

definition fmap_SelectStreamArgsG :: "('v \<Rightarrow> 'w) \<Rightarrow> ('b, 'v) SelectStreamArgsG \<Rightarrow> ('b, 'w) SelectStreamArgsG" where
  "fmap_SelectStreamArgsG h = map_SelectStreamArgsG h"

definition fmap_TablePermG :: "('v \<Rightarrow> 'w) \<Rightarrow> ('b, 'v) TablePermG \<Rightarrow> ('b, 'w) TablePermG" where
  "fmap_TablePermG h = map_TablePermG h"

definition fmap_AnnColumnField :: "('v \<Rightarrow> 'w) \<Rightarrow> ('b, 'v) AnnColumnField \<Rightarrow> ('b, 'w) AnnColumnField" where
  "fmap_AnnColumnField h = map_AnnColumnField h"

definition fmap_ComputedFieldScalarSelect :: "('v \<Rightarrow> 'w) \<Rightarrow> ('b, 'v) ComputedFieldScalarSelect \<Rightarrow> ('b, 'w) ComputedFieldScalarSelect" where
  "fmap_ComputedFieldScalarSelect h = map_ComputedFieldScalarSelect h"

definition fmap_AnnotatedOrderByElement :: "('v \<Rightarrow> 'w) \<Rightarrow> ('b, 'v) AnnotatedOrderByElement \<Rightarrow> ('b, 'w) AnnotatedOrderByElement" where
  "fmap_AnnotatedOrderByElement h = map_AnnotatedOrderByElement h"

definition fmap_ComputedFieldOrderBy :: "('v \<Rightarrow> 'w) \<Rightarrow> ('b, 'v) ComputedFieldOrderBy \<Rightarrow> ('b, 'w) ComputedFieldOrderBy" where
  "fmap_ComputedFieldOrderBy h = map_ComputedFieldOrderBy h"

definition fmap_ComputedFieldOrderByElement :: "('v \<Rightarrow> 'w) \<Rightarrow> ('b, 'v) ComputedFieldOrderByElement \<Rightarrow> ('b, 'w) ComputedFieldOrderByElement" where
  "fmap_ComputedFieldOrderByElement h = map_ComputedFieldOrderByElement h"

section \<open>Properties of the select tree\<close>

subsection \<open>Values to evaluate the folds on\<close>

text \<open>
  The backend values, the remote markers and the leaves are strings. \<open>allVariants\<close> holds
  every variant of the field, of the array select, of the computed field, and of the
  aggregate, connection and edge fields, with one remote marker \<open>R\<close> (in the remote
  relationship) and one leaf marker \<open>V\<close> (the bound value of a cursor split).
\<close>

definition emptyFilter :: "(string, 'v) AnnBoolExp" where
  "emptyFilter = Imported ''and'' []"

definition plainSelect :: "'fv Fields \<Rightarrow> (string, 'fv, 'v) AnnSelectG" where
  "plainSelect flds =
     AnnSelectG flds (FromTable ''t'') (noTablePermissions emptyFilter) noSelectArgs ''plain'' None"

definition markedConnection :: "(string, string, string) ConnectionSelect" where
  "markedConnection =
     ConnectionSelect ''relay'' ''id''
       (Some (NonEmpty (ConnectionSplit CSKAfter ''V'' (Imported ''asc'' [AOCColumn ''id''])) []))
       (Some (SliceFirst 10))
       (plainSelect
          [(''__typename'', ConnectionTypename ''C''),
           (''pageInfo'', ConnectionPageInfo [(''end'', PageInfoEndCursor)]),
           (''edges'', ConnectionEdges
              [(''__typename'', EdgeTypename ''E''),
               (''cursor'', EdgeCursor),
               (''node'', EdgeNode [(''x'', AFExpression ''x'')])])])"

definition allVariants :: "(string, string, string) QueryDB" where
  "allVariants = QDBMultipleRows (plainSelect
     [(''column'', AFColumn (AnnColumnField ''col1'' ''int'' False None None)),
      (''object'', AFObjectRelation (AnnRelationSelectG ''o'' []
          (AnnObjectSelectG [(''id'', AFNodeId ''relay'' ''default'' ''t'' ''id'')] ''t'' emptyFilter))),
      (''simple'', AFArrayRelation (ASSimple (AnnRelationSelectG ''s'' []
          (plainSelect [(''e'', AFExpression ''e'')])))),
      (''aggregate'', AFArrayRelation (ASAggregate (AnnRelationSelectG ''a'' []
          (plainSelect
             [(''agg'', TAFAgg [(''count'', AFCount ''star'')]),
              (''nodes'', TAFNodes ''x'' [(''e'', AFExpression ''e'')]),
              (''exp'', TAFExp ''e'')])))),
      (''connection'', AFArrayRelation (ASConnection (AnnRelationSelectG ''c'' [] markedConnection))),
      (''scalar'', AFComputedField ''x'' ''f''
          (CFSScalar (ComputedFieldScalarSelect ''fn'' (FunctionArgsExp [] []) ''int'' None) None)),
      (''table'', AFComputedField ''x'' ''g''
          (CFSTable ''json'' (plainSelect [(''e'', AFExpression ''e'')]))),
      (''remote'', AFRemote (RemoteRelationshipSelect [(''id'', ''id'')] ''R'')),
      (''node'', AFNodeId ''relay'' ''default'' ''t'' ''id''),
      (''expression'', AFExpression ''e'')])"

definition simpleSelect :: "(string, string, string) QueryDB" where
  "simpleSelect = QDBMultipleRows
     (AnnSelectG [(''a'', AFColumn (AnnColumnField ''col1'' ''int'' False None None))]
        (FromTable ''t'') (noTablePermissions emptyFilter) noSelectArgs ''plain'' None)"

definition threeLeafFilter :: "(string, string) AnnBoolExp" where
  "threeLeafFilter = Imported ''and'' [Imported ''eq'' [''v1''], Imported ''in'' [''v2'', ''v3'']]"

definition computedOrderBy :: "(string, string) AnnotatedOrderByElement" where
  "computedOrderBy = AOCComputedField
     (ComputedFieldOrderBy ''x'' ''total'' ''fn''
        (FunctionArgsExp [Imported ''arg'' [''a1'']] [(''n'', Imported ''arg'' [''a2''])])
        (CFOBETableAggregation ''t'' (Imported ''and'' [Imported ''eq'' [''f1'']]) AAOCount))"

definition orderedSelect :: "(string, string, string) AnnSelectG" where
  "orderedSelect = AnnSelectG
     [(''a'', ''field a''), (''b'', ''field b'')]
     (FromNativeQuery (Imported ''query'' [''from'']))
     (TablePerm (Imported ''and'' [Imported ''eq'' [''perm'']]) None)
     (SelectArgs (Some (Imported ''and'' [Imported ''eq'' [''where'']])) None None None None)
     ''plain'' None"

definition twoSplits :: "(string, string, string) ConnectionSelect" where
  "twoSplits =
     ConnectionSelect ''relay'' ''id''
       (Some (NonEmpty
          (ConnectionSplit CSKAfter ''v1''
             (Imported ''asc''
                [AOCObjectRelation ''author'' (Imported ''and'' [Imported ''eq'' [''p1'']])
                   (AOCColumn ''name'')]))
          [ConnectionSplit CSKBefore ''v2'' (Imported ''desc'' [computedOrderBy])]))
       None
       (AnnSelectG
          [(''edges'', ConnectionEdges
              [(''node'', EdgeNode
                  [(''remote'', AFRemote (RemoteRelationshipSelect [] ''R''))])])]
          (FromNativeQuery (Imported ''query'' [''q'']))
          (noTablePermissions emptyFilter) noSelectArgs ''plain'' None)"

subsection \<open>The constructor of no permissions\<close>

text \<open>
  C7. \<open>noTablePermissions\<close> is \<open>TablePerm annBoolExpTrue Nothing\<close>: its filter is the
  always-true expression and its limit is absent, for every backend and every leaf type.
\<close>

theorem noTablePermissions_spec:
  "noTablePermissions annBoolExpTrue = TablePerm annBoolExpTrue None
   \<and> tpFilter (noTablePermissions annBoolExpTrue) = annBoolExpTrue
   \<and> tpLimit (noTablePermissions annBoolExpTrue) = None"
  by (simp add: noTablePermissions_def)

theorem noTablePermissions_spec_witness:
  "noTablePermissions (emptyFilter :: (string, string) AnnBoolExp) =
     TablePerm (Imported ''and'' []) None
   \<and> tpLimit (noTablePermissions (emptyFilter :: (string, string) AnnBoolExp)) = None"
  using noTablePermissions_spec [of "emptyFilter :: (string, string) AnnBoolExp"]
  by (simp add: emptyFilter_def)

subsection \<open>The closed vocabulary of fields\<close>

text \<open>
  C8. Every field is exactly one of the seven variants (column, object relation, array
  relation, computed field, remote relationship, node id, expression), and every array
  select is exactly one of its three shapes: of the statements "\<open>x\<close> is built by this
  constructor", exactly one is true.
\<close>

theorem AnnFieldG_closed:
  fixes x :: "('b, 'r, 'v) AnnFieldG" and a :: "('b, 'r, 'v) ArraySelectG"
  shows "count_list
       [\<exists>c. x = AFColumn c, \<exists>s. x = AFObjectRelation s, \<exists>s. x = AFArrayRelation s,
        \<exists>e n c. x = AFComputedField e n c, \<exists>r. x = AFRemote r,
        \<exists>e s t p. x = AFNodeId e s t p, \<exists>t. x = AFExpression t] True = 1
   \<and> count_list [\<exists>s. a = ASSimple s, \<exists>s. a = ASAggregate s, \<exists>s. a = ASConnection s] True = 1"
  by (cases x; cases a; simp)

subsection \<open>The order of the generic select fold\<close>

text \<open>
  C3. \<open>bifoldMapAnnSelectG\<close> combines, in this order, the folds of the fields in the order
  of the field list, then the fold of the from clause, of the permission, and of the
  arguments; \<open>bifoldMapAnnSelectStreamG\<close> does the same with the streaming arguments.
\<close>

theorem bifoldMapAnnSelectG_order:
  "bifoldMapAnnSelectG bifoldMap f g sel =
     sum_list (map (\<lambda>(name, fld). bifoldMap f g fld) (asnFields sel))
     + foldMap_SelectFromG g (asnFrom sel)
     + foldMap_TablePermG g (asnPerm sel)
     + foldMap_SelectArgsG g (asnArgs sel)
   \<and> bifoldMapAnnSelectStreamG bifoldMap f g ssel =
     sum_list (map (\<lambda>(name, fld). bifoldMap f g fld) (assnFields ssel))
     + foldMap_SelectFromG g (assnFrom ssel)
     + foldMap_TablePermG g (assnPerm ssel)
     + foldMap_SelectStreamArgsG g (assnArgs ssel)"
proof -
  have prod: "foldMap_prod h = (\<lambda>(name, fld). h fld)" for h :: "'x \<Rightarrow> 'y::monoid_add"
    by (rule ext) (simp split: prod.splits)
  show ?thesis
    by (cases sel; cases ssel) (simp add: foldMap_list_def prod)
qed

theorem bifoldMapAnnSelectG_order_witness:
  "visited (bifoldMapAnnSelectG (\<lambda>f g fld. f fld) (\<lambda>r. Visits [Inl r]) (\<lambda>v. Visits [Inr v])
      orderedSelect) =
     [Inl ''field a'', Inl ''field b'', Inr ''from'', Inr ''perm'', Inr ''where'']"
  using bifoldMapAnnSelectG_order
      [of "\<lambda>f g fld. f fld" "\<lambda>r. Visits [Inl r]" "\<lambda>v. Visits [Inr v]" orderedSelect]
  by (simp add: orderedSelect_def foldMap_list_def)

subsection \<open>The functor laws\<close>

lemmas fmap_defs =
  fmap_QueryDB_def fmap_AnnFieldG_def fmap_AnnObjectSelectG_def
  fmap_ArraySelectG_def fmap_ComputedFieldSelect_def fmap_TableAggregateFieldG_def
  fmap_ConnectionSelect_def fmap_ConnectionField_def fmap_EdgeField_def
  fmap_ConnectionSplit_def fmap_SelectFromG_def fmap_SelectArgsG_def
  fmap_SelectStreamArgsG_def fmap_TablePermG_def fmap_AnnColumnField_def
  fmap_ComputedFieldScalarSelect_def fmap_AnnotatedOrderByElement_def fmap_ComputedFieldOrderBy_def
  fmap_ComputedFieldOrderByElement_def

lemmas map_ids =
  QueryDB.map_id AnnFieldG.map_id AnnObjectSelectG.map_id ArraySelectG.map_id
  ComputedFieldSelect.map_id TableAggregateFieldG.map_id ConnectionSelect.map_id ConnectionField.map_id
  EdgeField.map_id ConnectionSplit.map_id SelectFromG.map_id SelectArgsG.map_id
  SelectStreamArgsG.map_id TablePermG.map_id AnnColumnField.map_id ComputedFieldScalarSelect.map_id
  AnnotatedOrderByElement.map_id ComputedFieldOrderBy.map_id ComputedFieldOrderByElement.map_id

lemmas map_comps =
  QueryDB.map_comp AnnFieldG.map_comp AnnObjectSelectG.map_comp ArraySelectG.map_comp
  ComputedFieldSelect.map_comp TableAggregateFieldG.map_comp ConnectionSelect.map_comp ConnectionField.map_comp
  EdgeField.map_comp ConnectionSplit.map_comp SelectFromG.map_comp SelectArgsG.map_comp
  SelectStreamArgsG.map_comp TablePermG.map_comp AnnColumnField.map_comp ComputedFieldScalarSelect.map_comp
  AnnotatedOrderByElement.map_comp ComputedFieldOrderBy.map_comp ComputedFieldOrderByElement.map_comp

text \<open>
  C5. For the root and for every structure of the tree, mapping the identity returns the
  tree, and mapping \<open>h\<close> and then \<open>k\<close> is mapping \<open>k \<circ> h\<close>.
\<close>

theorem functor_laws:
  fixes h :: "'v \<Rightarrow> 'w" and k :: "'w \<Rightarrow> 'u"
  shows "(\<forall>x :: ('b, 'r, 'v) QueryDB. fmap_QueryDB id x = x \<and> fmap_QueryDB k (fmap_QueryDB h x) = fmap_QueryDB (k \<circ> h) x)
       \<and> (\<forall>x :: ('b, 'r, 'v) AnnFieldG. fmap_AnnFieldG id x = x \<and> fmap_AnnFieldG k (fmap_AnnFieldG h x) = fmap_AnnFieldG (k \<circ> h) x)
       \<and> (\<forall>x :: ('b, 'r, 'v) AnnObjectSelectG. fmap_AnnObjectSelectG id x = x \<and> fmap_AnnObjectSelectG k (fmap_AnnObjectSelectG h x) = fmap_AnnObjectSelectG (k \<circ> h) x)
       \<and> (\<forall>x :: ('b, 'r, 'v) ArraySelectG. fmap_ArraySelectG id x = x \<and> fmap_ArraySelectG k (fmap_ArraySelectG h x) = fmap_ArraySelectG (k \<circ> h) x)
       \<and> (\<forall>x :: ('b, 'r, 'v) ComputedFieldSelect. fmap_ComputedFieldSelect id x = x \<and> fmap_ComputedFieldSelect k (fmap_ComputedFieldSelect h x) = fmap_ComputedFieldSelect (k \<circ> h) x)
       \<and> (\<forall>x :: ('b, 'r, 'v) TableAggregateFieldG. fmap_TableAggregateFieldG id x = x \<and> fmap_TableAggregateFieldG k (fmap_TableAggregateFieldG h x) = fmap_TableAggregateFieldG (k \<circ> h) x)
       \<and> (\<forall>x :: ('b, 'r, 'v) ConnectionSelect. fmap_ConnectionSelect id x = x \<and> fmap_ConnectionSelect k (fmap_ConnectionSelect h x) = fmap_ConnectionSelect (k \<circ> h) x)
       \<and> (\<forall>x :: ('b, 'r, 'v) ConnectionField. fmap_ConnectionField id x = x \<and> fmap_ConnectionField k (fmap_ConnectionField h x) = fmap_ConnectionField (k \<circ> h) x)
       \<and> (\<forall>x :: ('b, 'r, 'v) EdgeField. fmap_EdgeField id x = x \<and> fmap_EdgeField k (fmap_EdgeField h x) = fmap_EdgeField (k \<circ> h) x)
       \<and> (\<forall>x :: ('b, 'v) ConnectionSplit. fmap_ConnectionSplit id x = x \<and> fmap_ConnectionSplit k (fmap_ConnectionSplit h x) = fmap_ConnectionSplit (k \<circ> h) x)
       \<and> (\<forall>x :: ('b, 'v) SelectFromG. fmap_SelectFromG id x = x \<and> fmap_SelectFromG k (fmap_SelectFromG h x) = fmap_SelectFromG (k \<circ> h) x)
       \<and> (\<forall>x :: ('b, 'v) SelectArgsG. fmap_SelectArgsG id x = x \<and> fmap_SelectArgsG k (fmap_SelectArgsG h x) = fmap_SelectArgsG (k \<circ> h) x)
       \<and> (\<forall>x :: ('b, 'v) SelectStreamArgsG. fmap_SelectStreamArgsG id x = x \<and> fmap_SelectStreamArgsG k (fmap_SelectStreamArgsG h x) = fmap_SelectStreamArgsG (k \<circ> h) x)
       \<and> (\<forall>x :: ('b, 'v) TablePermG. fmap_TablePermG id x = x \<and> fmap_TablePermG k (fmap_TablePermG h x) = fmap_TablePermG (k \<circ> h) x)
       \<and> (\<forall>x :: ('b, 'v) AnnColumnField. fmap_AnnColumnField id x = x \<and> fmap_AnnColumnField k (fmap_AnnColumnField h x) = fmap_AnnColumnField (k \<circ> h) x)
       \<and> (\<forall>x :: ('b, 'v) ComputedFieldScalarSelect. fmap_ComputedFieldScalarSelect id x = x \<and> fmap_ComputedFieldScalarSelect k (fmap_ComputedFieldScalarSelect h x) = fmap_ComputedFieldScalarSelect (k \<circ> h) x)
       \<and> (\<forall>x :: ('b, 'v) AnnotatedOrderByElement. fmap_AnnotatedOrderByElement id x = x \<and> fmap_AnnotatedOrderByElement k (fmap_AnnotatedOrderByElement h x) = fmap_AnnotatedOrderByElement (k \<circ> h) x)
       \<and> (\<forall>x :: ('b, 'v) ComputedFieldOrderBy. fmap_ComputedFieldOrderBy id x = x \<and> fmap_ComputedFieldOrderBy k (fmap_ComputedFieldOrderBy h x) = fmap_ComputedFieldOrderBy (k \<circ> h) x)
       \<and> (\<forall>x :: ('b, 'v) ComputedFieldOrderByElement. fmap_ComputedFieldOrderByElement id x = x \<and> fmap_ComputedFieldOrderByElement k (fmap_ComputedFieldOrderByElement h x) = fmap_ComputedFieldOrderByElement (k \<circ> h) x)"
  unfolding fmap_defs
  by (intro conjI allI; simp add: map_ids map_comps)

theorem functor_laws_witness:
  "fmap_QueryDB id simpleSelect = simpleSelect
   \<and> fmap_QueryDB length (fmap_QueryDB (\<lambda>v. v @ ''!'') allVariants) =
       fmap_QueryDB (length \<circ> (\<lambda>v. v @ ''!'')) allVariants"
  using functor_laws [of id id] functor_laws [of length "\<lambda>v. v @ ''!''"]
  by blast

subsection \<open>Completeness of the bifold\<close>

text \<open>
  The size function that the datatype package derives from the declarations adds, for
  weights \<open>wr\<close> and \<open>wv\<close>, the weight of every embedded occurrence of a remote marker and
  of a leaf to a number that depends on the shape only. So
  \<open>size (\<lambda>_. 0) wr wv q - size (\<lambda>_. 0) (\<lambda>_. 0) (\<lambda>_. 0) q\<close> is the sum of the weights of
  all occurrences embedded in \<open>q\<close>. The lemmas show that every fold adds exactly this sum.
\<close>

lemma size_list_add:
  "(\<And>x. x \<in> set xs \<Longrightarrow> w x = a x + b x) \<Longrightarrow>
   size_list w xs = size_list a xs + foldMap_list b xs"
  by (induction xs) (simp_all add: foldMap_list_def)

lemma size_prod_add:
  "(\<And>x. x \<in> Basic_BNFs.snds p \<Longrightarrow> w x = a x + b x) \<Longrightarrow>
   size_prod fk w p = size_prod fk a p + foldMap_prod b p"
  by (cases p) simp

lemma size_option_add:
  "(\<And>x. x \<in> set_option p \<Longrightarrow> w x = a x + b x) \<Longrightarrow>
   size_option w p = size_option a p + foldMap_option b p"
  by (cases p) simp_all

lemma size_NonEmpty_add:
  "(\<And>x. x \<in> set_NonEmpty p \<Longrightarrow> w x = a x + b x) \<Longrightarrow>
   size_NonEmpty w p = size_NonEmpty a p + foldMap_NonEmpty b p"
  by (cases p) (simp add: size_list_add [of _ w a b])

lemma size_Imported_add:
  "(\<And>x. x \<in> set_Imported p \<Longrightarrow> w x = a x + b x) \<Longrightarrow>
   size_Imported fb w p = size_Imported fb a p + foldMap_Imported b p"
  by (cases p) (simp add: size_list_add [of _ w a b])

lemma size_Fields_add:
  "(\<And>p x. p \<in> set flds \<Longrightarrow> x \<in> Basic_BNFs.snds p \<Longrightarrow> w x = a x + b x) \<Longrightarrow>
   size_list (size_prod fk w) flds =
   size_list (size_prod fk a) flds + foldMap_list (foldMap_prod b) flds"
  by (rule size_list_add) (auto intro: size_prod_add)

lemma size_FunctionArgsExpG_add:
  "(\<And>x. x \<in> set_FunctionArgsExpG p \<Longrightarrow> w x = a x + b x) \<Longrightarrow>
   size_FunctionArgsExpG w p = size_FunctionArgsExpG a p + foldMap_FunctionArgsExpG b p"
proof (cases p)
  case (FunctionArgsExp positional named)
  assume w: "\<And>x. x \<in> set_FunctionArgsExpG p \<Longrightarrow> w x = a x + b x"
  from w FunctionArgsExp
  have "size_list w positional = size_list a positional + foldMap_list b positional"
    by (intro size_list_add) auto
  moreover from w FunctionArgsExp
  have "size_list (size_prod (\<lambda>_. 0) w) named =
      size_list (size_prod (\<lambda>_. 0) a) named + foldMap_list (foldMap_prod b) named"
    by (intro size_Fields_add) auto
  ultimately show ?thesis using FunctionArgsExp by simp
qed

lemma size_AnnRelationSelectG_add:
  "(\<And>x. x \<in> set_AnnRelationSelectG p \<Longrightarrow> w x = a x + b x) \<Longrightarrow>
   size_AnnRelationSelectG fb w p = size_AnnRelationSelectG fb a p + foldMap_AnnRelationSelectG b p"
  by (cases p) simp

lemma size_RemoteRelationshipSelect_add:
  "size_RemoteRelationshipSelect fb w p =
   size_RemoteRelationshipSelect fb (\<lambda>_. 0) p + foldMap_RemoteRelationshipSelect w p"
  by (cases p) simp

lemma size_AnnBoolExp_add:
  "size_Imported fb (size_Imported fb w) p =
   size_Imported fb (size_Imported fb (\<lambda>_. 0)) p + foldMap_Imported (foldMap_Imported w) p"
  by (rule size_Imported_add) (simp add: size_Imported_add [of _ w "\<lambda>_. 0" w])

lemma size_FunctionArgsExp_add:
  "size_FunctionArgsExpG (size_Imported fb w) p =
   size_FunctionArgsExpG (size_Imported fb (\<lambda>_. 0)) p
   + foldMap_FunctionArgsExpG (foldMap_Imported w) p"
  by (rule size_FunctionArgsExpG_add) (simp add: size_Imported_add [of _ w "\<lambda>_. 0" w])

lemma size_ComputedFieldOrderByElement_add:
  "size_ComputedFieldOrderByElement fb w p =
   size_ComputedFieldOrderByElement fb (\<lambda>_. 0) p + foldMap_ComputedFieldOrderByElement w p"
  by (cases p) (simp_all add: size_AnnBoolExp_add [of fb w])

lemma size_ComputedFieldOrderBy_add:
  "size_ComputedFieldOrderBy fb w p =
   size_ComputedFieldOrderBy fb (\<lambda>_. 0) p + foldMap_ComputedFieldOrderBy w p"
  by (cases p)
    (simp add: size_FunctionArgsExp_add [of fb w] size_ComputedFieldOrderByElement_add [of fb w])

lemma size_AnnotatedOrderByElement_add:
  "size_AnnotatedOrderByElement fb w p =
   size_AnnotatedOrderByElement fb (\<lambda>_. 0) p + foldMap_AnnotatedOrderByElement w p"
  by (induction p)
    (simp_all add: size_AnnBoolExp_add [of fb w] size_ComputedFieldOrderBy_add [of fb w])

lemma size_SelectFromG_add:
  "size_SelectFromG fb w p = size_SelectFromG fb (\<lambda>_. 0) p + foldMap_SelectFromG w p"
  by (cases p)
    (simp_all add: size_FunctionArgsExp_add [of fb w] size_Imported_add [of _ w "\<lambda>_. 0" w])

lemma size_TablePermG_add:
  "size_TablePermG fb w p = size_TablePermG fb (\<lambda>_. 0) p + foldMap_TablePermG w p"
  by (cases p) (simp add: size_AnnBoolExp_add [of fb w])

lemma size_option_AnnBoolExp_add:
  "size_option (size_Imported fb (size_Imported fb w)) p =
   size_option (size_Imported fb (size_Imported fb (\<lambda>_. 0))) p
   + foldMap_option (foldMap_Imported (foldMap_Imported w)) p"
  by (rule size_option_add) (rule size_AnnBoolExp_add)

lemma size_SelectStreamArgsG_add:
  "size_SelectStreamArgsG fb w p =
   size_SelectStreamArgsG fb (\<lambda>_. 0) p + foldMap_SelectStreamArgsG w p"
  by (cases p) (simp add: size_option_AnnBoolExp_add [of fb w])

lemma size_OrderByItem_add:
  "size_Imported fb (size_AnnotatedOrderByElement fb w) p =
   size_Imported fb (size_AnnotatedOrderByElement fb (\<lambda>_. 0)) p
   + foldMap_Imported (foldMap_AnnotatedOrderByElement w) p"
  by (rule size_Imported_add) (rule size_AnnotatedOrderByElement_add)

lemma size_OrderBy_add:
  "size_option (size_NonEmpty (size_Imported fb (size_AnnotatedOrderByElement fb w))) p =
   size_option (size_NonEmpty (size_Imported fb (size_AnnotatedOrderByElement fb (\<lambda>_. 0)))) p
   + foldMap_option (foldMap_NonEmpty (foldMap_Imported (foldMap_AnnotatedOrderByElement w))) p"
  by (rule size_option_add, rule size_NonEmpty_add, rule size_OrderByItem_add)

lemma size_SelectArgsG_add:
  "size_SelectArgsG fb w p = size_SelectArgsG fb (\<lambda>_. 0) p + foldMap_SelectArgsG w p"
  by (cases p) (simp add: size_option_AnnBoolExp_add [of fb w] size_OrderBy_add [of fb w])

lemma size_ConnectionSplit_add:
  "size_ConnectionSplit fb w p = size_ConnectionSplit fb (\<lambda>_. 0) p + foldMap_ConnectionSplit w p"
  by (cases p) (simp add: size_OrderByItem_add [of fb w])

lemma size_Split_add:
  "size_option (size_NonEmpty (size_ConnectionSplit fb w)) p =
   size_option (size_NonEmpty (size_ConnectionSplit fb (\<lambda>_. 0))) p
   + foldMap_option (foldMap_NonEmpty (foldMap_ConnectionSplit w)) p"
  by (rule size_option_add, rule size_NonEmpty_add, rule size_ConnectionSplit_add)

lemma size_AnnColumnField_add:
  "size_AnnColumnField fb w p = size_AnnColumnField fb (\<lambda>_. 0) p + foldMap_AnnColumnField w p"
  by (cases p) (simp add: size_option_AnnBoolExp_add [of fb w])

lemma size_ComputedFieldScalarSelect_add:
  "size_ComputedFieldScalarSelect fb w p =
   size_ComputedFieldScalarSelect fb (\<lambda>_. 0) p + foldMap_ComputedFieldScalarSelect w p"
  by (cases p) (simp add: size_FunctionArgsExp_add [of fb w])

lemma size_AnnSelectG_add:
  "(\<And>x. x \<in> set1_AnnSelectG s \<Longrightarrow> w x = a x + bf f g x) \<Longrightarrow>
   size_AnnSelectG fb w g s = size_AnnSelectG fb a (\<lambda>_. 0) s + bifoldMapAnnSelectG bf f g s"
proof (cases s)
  case (AnnSelectG flds frm perm args sn nc)
  assume "\<And>x. x \<in> set1_AnnSelectG s \<Longrightarrow> w x = a x + bf f g x"
  with AnnSelectG have "size_list (size_prod (\<lambda>_. 0) w) flds =
      size_list (size_prod (\<lambda>_. 0) a) flds + foldMap_list (foldMap_prod (bf f g)) flds"
    by (intro size_Fields_add) auto
  with AnnSelectG show ?thesis
    by (simp add: size_SelectFromG_add [of fb g] size_TablePermG_add [of fb g]
        size_SelectArgsG_add [of fb g])
qed

lemma size_AnnSelectStreamG_add:
  "(\<And>x. x \<in> set1_AnnSelectStreamG s \<Longrightarrow> w x = a x + bf f g x) \<Longrightarrow>
   size_AnnSelectStreamG fb w g s =
   size_AnnSelectStreamG fb a (\<lambda>_. 0) s + bifoldMapAnnSelectStreamG bf f g s"
proof (cases s)
  case (AnnSelectStreamG x flds frm perm args sn)
  assume "\<And>x. x \<in> set1_AnnSelectStreamG s \<Longrightarrow> w x = a x + bf f g x"
  with AnnSelectStreamG have "size_list (size_prod (\<lambda>_. 0) w) flds =
      size_list (size_prod (\<lambda>_. 0) a) flds + foldMap_list (foldMap_prod (bf f g)) flds"
    by (intro size_Fields_add) auto
  with AnnSelectStreamG show ?thesis
    by (simp add: size_SelectFromG_add [of fb g] size_TablePermG_add [of fb g]
        size_SelectStreamArgsG_add [of fb g])
qed

lemma size_bifoldMap:
  fixes fb :: "'b \<Rightarrow> nat" and f :: "'r \<Rightarrow> nat" and g :: "'v \<Rightarrow> nat"
  shows "size_AnnFieldG fb f g (x1 :: ('b, 'r, 'v) AnnFieldG) =
           size_AnnFieldG fb (\<lambda>_. 0) (\<lambda>_. 0) x1 + bifoldMap_AnnFieldG f g x1"
    and "size_AnnObjectSelectG fb f g (x2 :: ('b, 'r, 'v) AnnObjectSelectG) =
           size_AnnObjectSelectG fb (\<lambda>_. 0) (\<lambda>_. 0) x2 + bifoldMap_AnnObjectSelectG f g x2"
    and "size_ArraySelectG fb f g (x3 :: ('b, 'r, 'v) ArraySelectG) =
           size_ArraySelectG fb (\<lambda>_. 0) (\<lambda>_. 0) x3 + bifoldMap_ArraySelectG f g x3"
    and "size_ComputedFieldSelect fb f g (x4 :: ('b, 'r, 'v) ComputedFieldSelect) =
           size_ComputedFieldSelect fb (\<lambda>_. 0) (\<lambda>_. 0) x4 + bifoldMap_ComputedFieldSelect f g x4"
    and "size_TableAggregateFieldG fb f g (x5 :: ('b, 'r, 'v) TableAggregateFieldG) =
           size_TableAggregateFieldG fb (\<lambda>_. 0) (\<lambda>_. 0) x5 + bifoldMap_TableAggregateFieldG f g x5"
    and "size_ConnectionSelect fb f g (x6 :: ('b, 'r, 'v) ConnectionSelect) =
           size_ConnectionSelect fb (\<lambda>_. 0) (\<lambda>_. 0) x6 + bifoldMap_ConnectionSelect f g x6"
    and "size_ConnectionField fb f g (x7 :: ('b, 'r, 'v) ConnectionField) =
           size_ConnectionField fb (\<lambda>_. 0) (\<lambda>_. 0) x7 + bifoldMap_ConnectionField f g x7"
    and "size_EdgeField fb f g (x8 :: ('b, 'r, 'v) EdgeField) =
           size_EdgeField fb (\<lambda>_. 0) (\<lambda>_. 0) x8 + bifoldMap_EdgeField f g x8"
proof (induction x1 and x2 and x3 and x4 and x5 and x6 and x7 and x8)
  case (AFColumn col)
  show ?case by (simp add: size_AnnColumnField_add [of fb g])
next
  case (AFObjectRelation objRel)
  have "size_AnnRelationSelectG fb (size_AnnObjectSelectG fb f g) objRel =
      size_AnnRelationSelectG fb (size_AnnObjectSelectG fb (\<lambda>_. 0) (\<lambda>_. 0)) objRel
      + foldMap_AnnRelationSelectG (bifoldMap_AnnObjectSelectG f g) objRel"
    by (rule size_AnnRelationSelectG_add) (rule AFObjectRelation)
  then show ?case by (simp add: bifoldMap_fusion)
next
  case (AFArrayRelation arrRel)
  then show ?case by simp
next
  case (AFComputedField x n cf)
  then show ?case by simp
next
  case (AFRemote r)
  show ?case by (simp add: size_RemoteRelationshipSelect_add [of fb f])
next
  case (AFNodeId x s t pk)
  show ?case by simp
next
  case (AFExpression e)
  show ?case by simp
next
  case (AnnObjectSelectG flds frm flt)
  have "size_list (size_prod (\<lambda>_. 0) (size_AnnFieldG fb f g)) flds =
      size_list (size_prod (\<lambda>_. 0) (size_AnnFieldG fb (\<lambda>_. 0) (\<lambda>_. 0))) flds
      + foldMap_list (foldMap_prod (bifoldMap_AnnFieldG f g)) flds"
    by (rule size_Fields_add) (rule AnnObjectSelectG)
  then show ?case by (simp add: bifoldMap_fusion size_AnnBoolExp_add [of fb g])
next
  case (ASSimple rel)
  have "size_AnnRelationSelectG fb (size_AnnSelectG fb (size_AnnFieldG fb f g) g) rel =
      size_AnnRelationSelectG fb
        (size_AnnSelectG fb (size_AnnFieldG fb (\<lambda>_. 0) (\<lambda>_. 0)) (\<lambda>_. 0)) rel
      + foldMap_AnnRelationSelectG (bifoldMapAnnSelectG bifoldMap_AnnFieldG f g) rel"
    by (rule size_AnnRelationSelectG_add, rule size_AnnSelectG_add) (rule ASSimple)
  then show ?case by (simp add: bifoldMap_fusion)
next
  case (ASAggregate rel)
  have "size_AnnRelationSelectG fb (size_AnnSelectG fb (size_TableAggregateFieldG fb f g) g) rel =
      size_AnnRelationSelectG fb
        (size_AnnSelectG fb (size_TableAggregateFieldG fb (\<lambda>_. 0) (\<lambda>_. 0)) (\<lambda>_. 0)) rel
      + foldMap_AnnRelationSelectG (bifoldMapAnnSelectG bifoldMap_TableAggregateFieldG f g) rel"
    by (rule size_AnnRelationSelectG_add, rule size_AnnSelectG_add) (rule ASAggregate)
  then show ?case by (simp add: bifoldMap_fusion)
next
  case (ASConnection rel)
  have "size_AnnRelationSelectG fb (size_ConnectionSelect fb f g) rel =
      size_AnnRelationSelectG fb (size_ConnectionSelect fb (\<lambda>_. 0) (\<lambda>_. 0)) rel
      + foldMap_AnnRelationSelectG (bifoldMap_ConnectionSelect f g) rel"
    by (rule size_AnnRelationSelectG_add) (rule ASConnection)
  then show ?case by (simp add: bifoldMap_fusion)
next
  case (CFSScalar cfsSelect caseBoolExp)
  show ?case
    by (simp add: size_ComputedFieldScalarSelect_add [of fb g] size_option_AnnBoolExp_add [of fb g])
next
  case (CFSTable j simpleSelect)
  have "size_AnnSelectG fb (size_AnnFieldG fb f g) g simpleSelect =
      size_AnnSelectG fb (size_AnnFieldG fb (\<lambda>_. 0) (\<lambda>_. 0)) (\<lambda>_. 0) simpleSelect
      + bifoldMapAnnSelectG bifoldMap_AnnFieldG f g simpleSelect"
    by (rule size_AnnSelectG_add) (rule CFSTable)
  then show ?case by (simp add: bifoldMap_fusion)
next
  case (TAFAgg a)
  show ?case by simp
next
  case (TAFNodes x flds)
  have "size_list (size_prod (\<lambda>_. 0) (size_AnnFieldG fb f g)) flds =
      size_list (size_prod (\<lambda>_. 0) (size_AnnFieldG fb (\<lambda>_. 0) (\<lambda>_. 0))) flds
      + foldMap_list (foldMap_prod (bifoldMap_AnnFieldG f g)) flds"
    by (rule size_Fields_add) (rule TAFNodes)
  then show ?case by (simp add: bifoldMap_fusion)
next
  case (TAFExp e)
  show ?case by simp
next
  case (ConnectionSelect x pk splt slc sel)
  have "size_AnnSelectG fb (size_ConnectionField fb f g) g sel =
      size_AnnSelectG fb (size_ConnectionField fb (\<lambda>_. 0) (\<lambda>_. 0)) (\<lambda>_. 0) sel
      + bifoldMapAnnSelectG bifoldMap_ConnectionField f g sel"
    by (rule size_AnnSelectG_add) (rule ConnectionSelect)
  then show ?case by (simp add: bifoldMap_fusion size_Split_add [of fb g])
next
  case (ConnectionTypename t)
  show ?case by simp
next
  case (ConnectionPageInfo p)
  show ?case by simp
next
  case (ConnectionEdges edgeFields)
  have "size_list (size_prod (\<lambda>_. 0) (size_EdgeField fb f g)) edgeFields =
      size_list (size_prod (\<lambda>_. 0) (size_EdgeField fb (\<lambda>_. 0) (\<lambda>_. 0))) edgeFields
      + foldMap_list (foldMap_prod (bifoldMap_EdgeField f g)) edgeFields"
    by (rule size_Fields_add) (rule ConnectionEdges)
  then show ?case by (simp add: bifoldMap_fusion)
next
  case (EdgeTypename t)
  show ?case by simp
next
  case EdgeCursor
  show ?case by simp
next
  case (EdgeNode annFields)
  have "size_list (size_prod (\<lambda>_. 0) (size_AnnFieldG fb f g)) annFields =
      size_list (size_prod (\<lambda>_. 0) (size_AnnFieldG fb (\<lambda>_. 0) (\<lambda>_. 0))) annFields
      + foldMap_list (foldMap_prod (bifoldMap_AnnFieldG f g)) annFields"
    by (rule size_Fields_add) (rule EdgeNode)
  then show ?case by (simp add: bifoldMap_fusion)
qed

lemma bifoldMap_QueryDB_weight:
  fixes q :: "('b, 'r, 'v) QueryDB" and wr :: "'r \<Rightarrow> nat" and wv :: "'v \<Rightarrow> nat"
  shows "size_QueryDB (\<lambda>_. 0) (\<lambda>_. 0) (\<lambda>_. 0) q + bifoldMap_QueryDB wr wv q =
         size_QueryDB (\<lambda>_. 0) wr wv q"
proof (cases q)
  case (QDBMultipleRows annSel)
  have "size_AnnSelectG (\<lambda>_. 0) (size_AnnFieldG (\<lambda>_. 0) wr wv) wv annSel =
      size_AnnSelectG (\<lambda>_. 0) (size_AnnFieldG (\<lambda>_. 0) (\<lambda>_. 0) (\<lambda>_. 0)) (\<lambda>_. 0) annSel
      + bifoldMapAnnSelectG bifoldMap_AnnFieldG wr wv annSel"
    by (rule size_AnnSelectG_add) (rule size_bifoldMap)
  with QDBMultipleRows show ?thesis by simp
next
  case (QDBSingleRow annSel)
  have "size_AnnSelectG (\<lambda>_. 0) (size_AnnFieldG (\<lambda>_. 0) wr wv) wv annSel =
      size_AnnSelectG (\<lambda>_. 0) (size_AnnFieldG (\<lambda>_. 0) (\<lambda>_. 0) (\<lambda>_. 0)) (\<lambda>_. 0) annSel
      + bifoldMapAnnSelectG bifoldMap_AnnFieldG wr wv annSel"
    by (rule size_AnnSelectG_add) (rule size_bifoldMap)
  with QDBSingleRow show ?thesis by simp
next
  case (QDBAggregation annSel)
  have "size_AnnSelectG (\<lambda>_. 0) (size_TableAggregateFieldG (\<lambda>_. 0) wr wv) wv annSel =
      size_AnnSelectG (\<lambda>_. 0) (size_TableAggregateFieldG (\<lambda>_. 0) (\<lambda>_. 0) (\<lambda>_. 0)) (\<lambda>_. 0)
        annSel
      + bifoldMapAnnSelectG bifoldMap_TableAggregateFieldG wr wv annSel"
    by (rule size_AnnSelectG_add) (rule size_bifoldMap)
  with QDBAggregation show ?thesis by simp
next
  case (QDBConnection connSel)
  then show ?thesis by (simp add: size_bifoldMap(6) [of "\<lambda>_. 0" wr wv])
next
  case (QDBStreamMultipleRows annSel)
  have "size_AnnSelectStreamG (\<lambda>_. 0) (size_AnnFieldG (\<lambda>_. 0) wr wv) wv annSel =
      size_AnnSelectStreamG (\<lambda>_. 0) (size_AnnFieldG (\<lambda>_. 0) (\<lambda>_. 0) (\<lambda>_. 0)) (\<lambda>_. 0)
        annSel
      + bifoldMapAnnSelectStreamG bifoldMap_AnnFieldG wr wv annSel"
    by (rule size_AnnSelectStreamG_add) (rule size_bifoldMap)
  with QDBStreamMultipleRows show ?thesis by simp
qed

subsection \<open>Every bifold replays the recorded visits\<close>

text \<open>
  A monoid homomorphism commutes with every fold. The function that folds a recorded list
  of visits with \<open>f\<close> on the remote markers and \<open>g\<close> on the leaves is a homomorphism from
  the free monoid, so the bifold with \<open>f\<close> and \<open>g\<close> is determined by the list that the
  bifold with the collecting functions records.
\<close>

definition monoid_hom :: "('m::monoid_add \<Rightarrow> 'n::monoid_add) \<Rightarrow> bool" where
  "monoid_hom h \<longleftrightarrow> h 0 = 0 \<and> (\<forall>a b. h (a + b) = h a + h b)"

lemma monoid_hom_zero: "monoid_hom h \<Longrightarrow> h 0 = 0"
  by (simp add: monoid_hom_def)

lemma monoid_hom_add: "monoid_hom h \<Longrightarrow> h (a + b) = h a + h b"
  by (simp add: monoid_hom_def)

lemmas hom_simps = monoid_hom_zero monoid_hom_add

lemma hom_foldMap_list:
  "monoid_hom h \<Longrightarrow> (\<And>x. x \<in> set xs \<Longrightarrow> h (k x) = k' x) \<Longrightarrow>
   h (foldMap_list k xs) = foldMap_list k' xs"
  by (induction xs) (simp_all add: foldMap_list_def hom_simps)

lemma hom_foldMap_prod:
  "(\<And>x. x \<in> Basic_BNFs.snds p \<Longrightarrow> h (k x) = k' x) \<Longrightarrow>
   h (foldMap_prod k p) = foldMap_prod k' p"
  by (cases p) simp

lemma hom_foldMap_option:
  "monoid_hom h \<Longrightarrow> (\<And>x. x \<in> set_option p \<Longrightarrow> h (k x) = k' x) \<Longrightarrow>
   h (foldMap_option k p) = foldMap_option k' p"
  by (cases p) (simp_all add: hom_simps)

lemma hom_foldMap_NonEmpty:
  assumes "monoid_hom h" and "\<And>x. x \<in> set_NonEmpty p \<Longrightarrow> h (k x) = k' x"
  shows "h (foldMap_NonEmpty k p) = foldMap_NonEmpty k' p"
proof (cases p)
  case (NonEmpty a as)
  with assms have "h (foldMap_list k as) = foldMap_list k' as"
    by (intro hom_foldMap_list) auto
  with assms NonEmpty show ?thesis by (simp add: hom_simps)
qed

lemma hom_foldMap_Imported:
  assumes "monoid_hom h" and "\<And>x. x \<in> set_Imported p \<Longrightarrow> h (k x) = k' x"
  shows "h (foldMap_Imported k p) = foldMap_Imported k' p"
proof (cases p)
  case (Imported s as)
  with assms have "h (foldMap_list k as) = foldMap_list k' as"
    by (intro hom_foldMap_list) auto
  with Imported show ?thesis by simp
qed

lemma hom_foldMap_Fields:
  assumes "monoid_hom h"
    and "\<And>p x. p \<in> set flds \<Longrightarrow> x \<in> Basic_BNFs.snds p \<Longrightarrow> h (k x) = k' x"
  shows "h (foldMap_list (foldMap_prod k) flds) = foldMap_list (foldMap_prod k') flds"
  using assms by (intro hom_foldMap_list hom_foldMap_prod) auto

lemma hom_foldMap_FunctionArgsExpG:
  assumes "monoid_hom h" and "\<And>x. x \<in> set_FunctionArgsExpG p \<Longrightarrow> h (k x) = k' x"
  shows "h (foldMap_FunctionArgsExpG k p) = foldMap_FunctionArgsExpG k' p"
proof (cases p)
  case (FunctionArgsExp positional named)
  with assms have "h (foldMap_list k positional) = foldMap_list k' positional"
    by (intro hom_foldMap_list) auto
  moreover from assms FunctionArgsExp
  have "h (foldMap_list (foldMap_prod k) named) = foldMap_list (foldMap_prod k') named"
    by (intro hom_foldMap_Fields) auto
  ultimately show ?thesis using assms(1) FunctionArgsExp by (simp add: hom_simps)
qed

lemma hom_foldMap_AnnRelationSelectG:
  "(\<And>x. x \<in> set_AnnRelationSelectG p \<Longrightarrow> h (k x) = k' x) \<Longrightarrow>
   h (foldMap_AnnRelationSelectG k p) = foldMap_AnnRelationSelectG k' p"
  by (cases p) simp

lemma hom_foldMap_RemoteRelationshipSelect:
  "h (foldMap_RemoteRelationshipSelect f p) = foldMap_RemoteRelationshipSelect (\<lambda>r. h (f r)) p"
  by (cases p) simp

lemma hom_foldMap_AnnBoolExp:
  "monoid_hom h \<Longrightarrow>
   h (foldMap_Imported (foldMap_Imported g) p) = foldMap_Imported (foldMap_Imported (\<lambda>v. h (g v))) p"
  by (intro hom_foldMap_Imported) simp_all

lemma hom_foldMap_option_AnnBoolExp:
  "monoid_hom h \<Longrightarrow>
   h (foldMap_option (foldMap_Imported (foldMap_Imported g)) p) =
   foldMap_option (foldMap_Imported (foldMap_Imported (\<lambda>v. h (g v)))) p"
  by (intro hom_foldMap_option hom_foldMap_AnnBoolExp)

lemma hom_foldMap_FunctionArgsExp:
  "monoid_hom h \<Longrightarrow>
   h (foldMap_FunctionArgsExpG (foldMap_Imported g) p) =
   foldMap_FunctionArgsExpG (foldMap_Imported (\<lambda>v. h (g v))) p"
  by (intro hom_foldMap_FunctionArgsExpG hom_foldMap_Imported) simp_all

lemma hom_foldMap_ComputedFieldOrderByElement:
  "monoid_hom h \<Longrightarrow>
   h (foldMap_ComputedFieldOrderByElement g p) =
   foldMap_ComputedFieldOrderByElement (\<lambda>v. h (g v)) p"
  by (cases p) (simp_all add: hom_simps hom_foldMap_AnnBoolExp)

lemma hom_foldMap_ComputedFieldOrderBy:
  "monoid_hom h \<Longrightarrow>
   h (foldMap_ComputedFieldOrderBy g p) = foldMap_ComputedFieldOrderBy (\<lambda>v. h (g v)) p"
  by (cases p)
    (simp add: hom_simps hom_foldMap_FunctionArgsExp hom_foldMap_ComputedFieldOrderByElement)

lemma hom_foldMap_AnnotatedOrderByElement:
  "monoid_hom h \<Longrightarrow>
   h (foldMap_AnnotatedOrderByElement g p) = foldMap_AnnotatedOrderByElement (\<lambda>v. h (g v)) p"
  by (induction p)
    (simp_all add: hom_simps hom_foldMap_AnnBoolExp hom_foldMap_ComputedFieldOrderBy)

lemma hom_foldMap_SelectFromG:
  "monoid_hom h \<Longrightarrow> h (foldMap_SelectFromG g p) = foldMap_SelectFromG (\<lambda>v. h (g v)) p"
  by (cases p) (simp_all add: hom_simps hom_foldMap_FunctionArgsExp hom_foldMap_Imported)

lemma hom_foldMap_TablePermG:
  "monoid_hom h \<Longrightarrow> h (foldMap_TablePermG g p) = foldMap_TablePermG (\<lambda>v. h (g v)) p"
  by (cases p) (simp add: hom_foldMap_AnnBoolExp)

lemma hom_foldMap_SelectStreamArgsG:
  "monoid_hom h \<Longrightarrow>
   h (foldMap_SelectStreamArgsG g p) = foldMap_SelectStreamArgsG (\<lambda>v. h (g v)) p"
  by (cases p) (simp add: hom_foldMap_option_AnnBoolExp)

lemma hom_foldMap_OrderByItem:
  "monoid_hom h \<Longrightarrow>
   h (foldMap_Imported (foldMap_AnnotatedOrderByElement g) p) =
   foldMap_Imported (foldMap_AnnotatedOrderByElement (\<lambda>v. h (g v))) p"
  by (intro hom_foldMap_Imported hom_foldMap_AnnotatedOrderByElement)

lemma hom_foldMap_OrderBy:
  "monoid_hom h \<Longrightarrow>
   h (foldMap_option (foldMap_NonEmpty (foldMap_Imported (foldMap_AnnotatedOrderByElement g))) p) =
   foldMap_option
     (foldMap_NonEmpty (foldMap_Imported (foldMap_AnnotatedOrderByElement (\<lambda>v. h (g v))))) p"
  by (intro hom_foldMap_option hom_foldMap_NonEmpty hom_foldMap_OrderByItem)

lemma hom_foldMap_SelectArgsG:
  "monoid_hom h \<Longrightarrow> h (foldMap_SelectArgsG g p) = foldMap_SelectArgsG (\<lambda>v. h (g v)) p"
  by (cases p) (simp add: hom_simps hom_foldMap_option_AnnBoolExp hom_foldMap_OrderBy)

lemma hom_foldMap_ConnectionSplit:
  "monoid_hom h \<Longrightarrow> h (foldMap_ConnectionSplit g p) = foldMap_ConnectionSplit (\<lambda>v. h (g v)) p"
  by (cases p) (simp add: hom_simps hom_foldMap_OrderByItem)

lemma hom_foldMap_Split:
  "monoid_hom h \<Longrightarrow>
   h (foldMap_option (foldMap_NonEmpty (foldMap_ConnectionSplit g)) p) =
   foldMap_option (foldMap_NonEmpty (foldMap_ConnectionSplit (\<lambda>v. h (g v)))) p"
  by (intro hom_foldMap_option hom_foldMap_NonEmpty hom_foldMap_ConnectionSplit)

lemma hom_foldMap_AnnColumnField:
  "monoid_hom h \<Longrightarrow> h (foldMap_AnnColumnField g p) = foldMap_AnnColumnField (\<lambda>v. h (g v)) p"
  by (cases p) (simp add: hom_foldMap_option_AnnBoolExp)

lemma hom_foldMap_ComputedFieldScalarSelect:
  "monoid_hom h \<Longrightarrow>
   h (foldMap_ComputedFieldScalarSelect g p) = foldMap_ComputedFieldScalarSelect (\<lambda>v. h (g v)) p"
  by (cases p) (simp add: hom_foldMap_FunctionArgsExp)

lemma hom_bifoldMapAnnSelectG:
  assumes "monoid_hom h"
    and "\<And>x. x \<in> set1_AnnSelectG s \<Longrightarrow> h (bf f g x) = bf' (\<lambda>r. h (f r)) (\<lambda>v. h (g v)) x"
  shows "h (bifoldMapAnnSelectG bf f g s) = bifoldMapAnnSelectG bf' (\<lambda>r. h (f r)) (\<lambda>v. h (g v)) s"
proof (cases s)
  case (AnnSelectG flds frm perm args sn nc)
  with assms have "h (foldMap_list (foldMap_prod (bf f g)) flds) =
      foldMap_list (foldMap_prod (bf' (\<lambda>r. h (f r)) (\<lambda>v. h (g v)))) flds"
    by (intro hom_foldMap_Fields) auto
  with assms(1) AnnSelectG show ?thesis
    by (simp add: hom_simps hom_foldMap_SelectFromG hom_foldMap_TablePermG hom_foldMap_SelectArgsG)
qed

lemma hom_bifoldMapAnnSelectStreamG:
  assumes "monoid_hom h"
    and "\<And>x. x \<in> set1_AnnSelectStreamG s \<Longrightarrow>
           h (bf f g x) = bf' (\<lambda>r. h (f r)) (\<lambda>v. h (g v)) x"
  shows "h (bifoldMapAnnSelectStreamG bf f g s) =
         bifoldMapAnnSelectStreamG bf' (\<lambda>r. h (f r)) (\<lambda>v. h (g v)) s"
proof (cases s)
  case (AnnSelectStreamG x flds frm perm args sn)
  with assms have "h (foldMap_list (foldMap_prod (bf f g)) flds) =
      foldMap_list (foldMap_prod (bf' (\<lambda>r. h (f r)) (\<lambda>v. h (g v)))) flds"
    by (intro hom_foldMap_Fields) auto
  with assms(1) AnnSelectStreamG show ?thesis
    by (simp add: hom_simps hom_foldMap_SelectFromG hom_foldMap_TablePermG
        hom_foldMap_SelectStreamArgsG)
qed

lemma hom_bifoldMap:
  fixes h :: "'m::monoid_add \<Rightarrow> 'n::monoid_add" and f :: "'r \<Rightarrow> 'm" and g :: "'v \<Rightarrow> 'm"
  assumes h: "monoid_hom h"
  shows "h (bifoldMap_AnnFieldG f g (x1 :: ('b, 'r, 'v) AnnFieldG)) =
           bifoldMap_AnnFieldG (\<lambda>r. h (f r)) (\<lambda>v. h (g v)) x1"
    and "h (bifoldMap_AnnObjectSelectG f g (x2 :: ('b, 'r, 'v) AnnObjectSelectG)) =
           bifoldMap_AnnObjectSelectG (\<lambda>r. h (f r)) (\<lambda>v. h (g v)) x2"
    and "h (bifoldMap_ArraySelectG f g (x3 :: ('b, 'r, 'v) ArraySelectG)) =
           bifoldMap_ArraySelectG (\<lambda>r. h (f r)) (\<lambda>v. h (g v)) x3"
    and "h (bifoldMap_ComputedFieldSelect f g (x4 :: ('b, 'r, 'v) ComputedFieldSelect)) =
           bifoldMap_ComputedFieldSelect (\<lambda>r. h (f r)) (\<lambda>v. h (g v)) x4"
    and "h (bifoldMap_TableAggregateFieldG f g (x5 :: ('b, 'r, 'v) TableAggregateFieldG)) =
           bifoldMap_TableAggregateFieldG (\<lambda>r. h (f r)) (\<lambda>v. h (g v)) x5"
    and "h (bifoldMap_ConnectionSelect f g (x6 :: ('b, 'r, 'v) ConnectionSelect)) =
           bifoldMap_ConnectionSelect (\<lambda>r. h (f r)) (\<lambda>v. h (g v)) x6"
    and "h (bifoldMap_ConnectionField f g (x7 :: ('b, 'r, 'v) ConnectionField)) =
           bifoldMap_ConnectionField (\<lambda>r. h (f r)) (\<lambda>v. h (g v)) x7"
    and "h (bifoldMap_EdgeField f g (x8 :: ('b, 'r, 'v) EdgeField)) =
           bifoldMap_EdgeField (\<lambda>r. h (f r)) (\<lambda>v. h (g v)) x8"
proof (induction x1 and x2 and x3 and x4 and x5 and x6 and x7 and x8)
  case (AFColumn col)
  show ?case by (simp add: hom_foldMap_AnnColumnField [OF h])
next
  case (AFObjectRelation objRel)
  have "h (foldMap_AnnRelationSelectG (bifoldMap_AnnObjectSelectG f g) objRel) =
      foldMap_AnnRelationSelectG (bifoldMap_AnnObjectSelectG (\<lambda>r. h (f r)) (\<lambda>v. h (g v))) objRel"
    by (rule hom_foldMap_AnnRelationSelectG) (rule AFObjectRelation)
  then show ?case by (simp add: bifoldMap_fusion)
next
  case (AFArrayRelation arrRel)
  then show ?case by simp
next
  case (AFComputedField x n cf)
  then show ?case by simp
next
  case (AFRemote r)
  show ?case by (simp add: hom_foldMap_RemoteRelationshipSelect)
next
  case (AFNodeId x s t pk)
  show ?case by (simp add: hom_simps [OF h])
next
  case (AFExpression e)
  show ?case by (simp add: hom_simps [OF h])
next
  case (AnnObjectSelectG flds frm flt)
  have "h (foldMap_list (foldMap_prod (bifoldMap_AnnFieldG f g)) flds) =
      foldMap_list (foldMap_prod (bifoldMap_AnnFieldG (\<lambda>r. h (f r)) (\<lambda>v. h (g v)))) flds"
    by (rule hom_foldMap_Fields [OF h]) (rule AnnObjectSelectG)
  then show ?case by (simp add: bifoldMap_fusion hom_simps [OF h] hom_foldMap_AnnBoolExp [OF h])
next
  case (ASSimple rel)
  have "h (foldMap_AnnRelationSelectG (bifoldMapAnnSelectG bifoldMap_AnnFieldG f g) rel) =
      foldMap_AnnRelationSelectG
        (bifoldMapAnnSelectG bifoldMap_AnnFieldG (\<lambda>r. h (f r)) (\<lambda>v. h (g v))) rel"
    by (rule hom_foldMap_AnnRelationSelectG, rule hom_bifoldMapAnnSelectG [OF h])
      (rule ASSimple)
  then show ?case by (simp add: bifoldMap_fusion)
next
  case (ASAggregate rel)
  have "h (foldMap_AnnRelationSelectG (bifoldMapAnnSelectG bifoldMap_TableAggregateFieldG f g) rel) =
      foldMap_AnnRelationSelectG
        (bifoldMapAnnSelectG bifoldMap_TableAggregateFieldG (\<lambda>r. h (f r)) (\<lambda>v. h (g v))) rel"
    by (rule hom_foldMap_AnnRelationSelectG, rule hom_bifoldMapAnnSelectG [OF h])
      (rule ASAggregate)
  then show ?case by (simp add: bifoldMap_fusion)
next
  case (ASConnection rel)
  have "h (foldMap_AnnRelationSelectG (bifoldMap_ConnectionSelect f g) rel) =
      foldMap_AnnRelationSelectG (bifoldMap_ConnectionSelect (\<lambda>r. h (f r)) (\<lambda>v. h (g v))) rel"
    by (rule hom_foldMap_AnnRelationSelectG) (rule ASConnection)
  then show ?case by (simp add: bifoldMap_fusion)
next
  case (CFSScalar cfsSelect caseBoolExp)
  show ?case
    by (simp add: hom_simps [OF h] hom_foldMap_ComputedFieldScalarSelect [OF h]
        hom_foldMap_option_AnnBoolExp [OF h])
next
  case (CFSTable j simpleSelect)
  have "h (bifoldMapAnnSelectG bifoldMap_AnnFieldG f g simpleSelect) =
      bifoldMapAnnSelectG bifoldMap_AnnFieldG (\<lambda>r. h (f r)) (\<lambda>v. h (g v)) simpleSelect"
    by (rule hom_bifoldMapAnnSelectG [OF h]) (rule CFSTable)
  then show ?case by (simp add: bifoldMap_fusion)
next
  case (TAFAgg a)
  show ?case by (simp add: hom_simps [OF h])
next
  case (TAFNodes x flds)
  have "h (foldMap_list (foldMap_prod (bifoldMap_AnnFieldG f g)) flds) =
      foldMap_list (foldMap_prod (bifoldMap_AnnFieldG (\<lambda>r. h (f r)) (\<lambda>v. h (g v)))) flds"
    by (rule hom_foldMap_Fields [OF h]) (rule TAFNodes)
  then show ?case by (simp add: bifoldMap_fusion)
next
  case (TAFExp e)
  show ?case by (simp add: hom_simps [OF h])
next
  case (ConnectionSelect x pk splt slc sel)
  have "h (bifoldMapAnnSelectG bifoldMap_ConnectionField f g sel) =
      bifoldMapAnnSelectG bifoldMap_ConnectionField (\<lambda>r. h (f r)) (\<lambda>v. h (g v)) sel"
    by (rule hom_bifoldMapAnnSelectG [OF h]) (rule ConnectionSelect)
  then show ?case by (simp add: bifoldMap_fusion hom_simps [OF h] hom_foldMap_Split [OF h])
next
  case (ConnectionTypename t)
  show ?case by (simp add: hom_simps [OF h])
next
  case (ConnectionPageInfo p)
  show ?case by (simp add: hom_simps [OF h])
next
  case (ConnectionEdges edgeFields)
  have "h (foldMap_list (foldMap_prod (bifoldMap_EdgeField f g)) edgeFields) =
      foldMap_list (foldMap_prod (bifoldMap_EdgeField (\<lambda>r. h (f r)) (\<lambda>v. h (g v)))) edgeFields"
    by (rule hom_foldMap_Fields [OF h]) (rule ConnectionEdges)
  then show ?case by (simp add: bifoldMap_fusion)
next
  case (EdgeTypename t)
  show ?case by (simp add: hom_simps [OF h])
next
  case EdgeCursor
  show ?case by (simp add: hom_simps [OF h])
next
  case (EdgeNode annFields)
  have "h (foldMap_list (foldMap_prod (bifoldMap_AnnFieldG f g)) annFields) =
      foldMap_list (foldMap_prod (bifoldMap_AnnFieldG (\<lambda>r. h (f r)) (\<lambda>v. h (g v)))) annFields"
    by (rule hom_foldMap_Fields [OF h]) (rule EdgeNode)
  then show ?case by (simp add: bifoldMap_fusion)
qed

lemma hom_bifoldMap_QueryDB:
  assumes h: "monoid_hom h"
  shows "h (bifoldMap_QueryDB f g q) = bifoldMap_QueryDB (\<lambda>r. h (f r)) (\<lambda>v. h (g v)) q"
proof (cases q)
  case (QDBMultipleRows annSel)
  then show ?thesis
    by (simp add: hom_bifoldMapAnnSelectG [OF h] hom_bifoldMap(1) [OF h])
next
  case (QDBSingleRow annSel)
  then show ?thesis
    by (simp add: hom_bifoldMapAnnSelectG [OF h] hom_bifoldMap(1) [OF h])
next
  case (QDBAggregation annSel)
  then show ?thesis
    by (simp add: hom_bifoldMapAnnSelectG [OF h] hom_bifoldMap(5) [OF h])
next
  case (QDBConnection connSel)
  then show ?thesis by (simp add: hom_bifoldMap(6) [OF h])
next
  case (QDBStreamMultipleRows annSel)
  then show ?thesis
    by (simp add: hom_bifoldMapAnnSelectStreamG [OF h] hom_bifoldMap(1) [OF h])
qed

definition replay :: "('r \<Rightarrow> 'm) \<Rightarrow> ('v \<Rightarrow> 'm) \<Rightarrow> ('r + 'v) Visits \<Rightarrow> 'm::monoid_add" where
  "replay f g vs = foldMap_list (case_sum f g) (visited vs)"

lemma monoid_hom_replay: "monoid_hom (replay f g)"
  by (simp add: monoid_hom_def replay_def foldMap_list_def)

lemma bifoldMap_QueryDB_replay:
  "bifoldMap_QueryDB f g q =
     foldMap_list (case_sum f g)
       (visited (bifoldMap_QueryDB (\<lambda>r. Visits [Inl r]) (\<lambda>v. Visits [Inr v]) q))"
  using hom_bifoldMap_QueryDB [OF monoid_hom_replay, of f g "\<lambda>r. Visits [Inl r]" "\<lambda>v. Visits [Inr v]" q]
  by (simp add: replay_def foldMap_list_def)

text \<open>
  C1. The bifold of a tree with the collecting functions records a list of visits. For all
  weights of the remote markers and of the leaves, the weight of the recorded list is the
  sum of the weights of all occurrences embedded in the tree: every embedded occurrence
  of a remote marker and of a leaf is visited exactly once, and none is dropped. The
  bifold with any functions into any monoid is the fold of the recorded list, so the same
  holds for it; with weights it is the sum of the weights of all embedded occurrences.
\<close>

theorem bifold_complete:
  fixes q :: "('b, 'r, 'v) QueryDB" and wr :: "'r \<Rightarrow> nat" and wv :: "'v \<Rightarrow> nat"
    and f :: "'r \<Rightarrow> 'm::monoid_add" and g :: "'v \<Rightarrow> 'm"
  shows "size_QueryDB (\<lambda>_. 0) (\<lambda>_. 0) (\<lambda>_. 0) q
           + sum_list (map (case_sum wr wv)
               (visited (bifoldMap_QueryDB (\<lambda>r. Visits [Inl r]) (\<lambda>v. Visits [Inr v]) q))) =
         size_QueryDB (\<lambda>_. 0) wr wv q
       \<and> bifoldMap_QueryDB f g q =
         foldMap_list (case_sum f g)
           (visited (bifoldMap_QueryDB (\<lambda>r. Visits [Inl r]) (\<lambda>v. Visits [Inr v]) q))
       \<and> size_QueryDB (\<lambda>_. 0) (\<lambda>_. 0) (\<lambda>_. 0) q + bifoldMap_QueryDB wr wv q =
         size_QueryDB (\<lambda>_. 0) wr wv q"
  using bifoldMap_QueryDB_weight [of q wr wv] bifoldMap_QueryDB_replay [of wr wv q]
    bifoldMap_QueryDB_replay [of f g q]
  by (simp add: foldMap_list_def)

lemma allVariants_visits:
  "visited (bifoldMap_QueryDB (\<lambda>r. Visits [Inl r]) (\<lambda>v. Visits [Inr v]) allVariants) =
     [Inr ''V'', Inl ''R'']"
  by (simp add: allVariants_def markedConnection_def plainSelect_def emptyFilter_def
      noTablePermissions_def noSelectArgs_def foldMap_list_def bifoldMap_fusion)

theorem bifold_complete_witness:
  "visited (bifoldMap_QueryDB (\<lambda>r. Visits [Inl r]) (\<lambda>v. Visits [Inr v]) allVariants) =
     [Inr ''V'', Inl ''R'']
   \<and> size_QueryDB (\<lambda>_. 0) (\<lambda>r. if r = ''R'' then 1 else 0) (\<lambda>_. 0) allVariants =
       size_QueryDB (\<lambda>_. 0) (\<lambda>_. 0) (\<lambda>_. 0) allVariants + 1
   \<and> size_QueryDB (\<lambda>_. 0) (\<lambda>_. 0) (\<lambda>v. if v = ''V'' then 1 else 0) allVariants =
       size_QueryDB (\<lambda>_. 0) (\<lambda>_. 0) (\<lambda>_. 0) allVariants + 1"
proof -
  have "bifoldMap_QueryDB (\<lambda>r. if r = ''R'' then 1 else 0) (\<lambda>_. 0::nat) allVariants = 1"
    and "bifoldMap_QueryDB (\<lambda>_. 0::nat) (\<lambda>v. if v = ''V'' then 1 else 0) allVariants = 1"
    by (simp_all add: allVariants_def markedConnection_def plainSelect_def emptyFilter_def
        noTablePermissions_def noSelectArgs_def foldMap_list_def bifoldMap_fusion)
  then show ?thesis
    using allVariants_visits
      bifold_complete [where q = allVariants and wr = "\<lambda>r. if r = ''R'' then 1 else 0"
        and wv = "\<lambda>_. 0" and f = "\<lambda>r. Visits [Inl r]" and g = "\<lambda>v. Visits [Inr v]"]
      bifold_complete [where q = allVariants and wr = "\<lambda>_. 0"
        and wv = "\<lambda>v. if v = ''V'' then 1 else 0" and f = "\<lambda>r. Visits [Inl r]"
        and g = "\<lambda>v. Visits [Inr v]"]
    by simp
qed

subsection \<open>Order by through an object relation\<close>

lemma count_Imported: "foldMap_Imported (\<lambda>_. Suc 0) fld = length (elems fld)"
  by (cases fld) (simp add: foldMap_list_def sum_list_triv)

lemma count_AnnBoolExp:
  "foldMap_Imported (foldMap_Imported (\<lambda>_. Suc 0)) P = length (concat (map elems (elems P)))"
proof (cases P)
  case (Imported s fs)
  have "foldMap_list (foldMap_Imported (\<lambda>_. Suc 0)) fs = length (concat (map elems fs))"
    by (induction fs) (simp_all add: foldMap_list_def count_Imported)
  with Imported show ?thesis by simp
qed

text \<open>
  C4. Counting the leaves of an object-relation order-by element (every leaf counts 1)
  gives the number of leaves inside the permission filter \<open>P\<close> plus the count of the nested
  element \<open>E\<close>; with a plain column as nested element it is the number of leaves of \<open>P\<close>.
  The leaves inside \<open>P\<close> are the elements of the fields of \<open>P\<close>. In any monoid the fold is
  the fold of \<open>P\<close> followed by the fold of \<open>E\<close>. For every nested element \<open>E\<close> and all
  weights, the fold of \<open>E\<close> is the sum of the weights of all leaves embedded in \<open>E\<close>, as
  the size function derived from the declaration adds them up, and so is the fold of the
  whole element: with the weight 1 the fold counts every leaf of \<open>P\<close> and of \<open>E\<close> once.
\<close>

theorem object_relation_order_by_counts_filter:
  fixes w :: "'v \<Rightarrow> nat" and g :: "'v \<Rightarrow> 'm::monoid_add"
    and E :: "('b, 'v) AnnotatedOrderByElement"
  shows "foldMap_AnnotatedOrderByElement (\<lambda>_. 1::nat) (AOCObjectRelation rel P E) =
     length (concat (map elems (elems P))) + foldMap_AnnotatedOrderByElement (\<lambda>_. 1) E
   \<and> foldMap_AnnotatedOrderByElement (\<lambda>_. 1::nat) (AOCObjectRelation rel P (AOCColumn c)) =
     length (concat (map elems (elems P)))
   \<and> foldMap_AnnotatedOrderByElement g (AOCObjectRelation rel P E) =
     foldMap_Imported (foldMap_Imported g) P + foldMap_AnnotatedOrderByElement g E
   \<and> size_AnnotatedOrderByElement (\<lambda>_. 0) (\<lambda>_. 0) E + foldMap_AnnotatedOrderByElement w E =
     size_AnnotatedOrderByElement (\<lambda>_. 0) w E
   \<and> size_AnnotatedOrderByElement (\<lambda>_. 0) (\<lambda>_. 0) (AOCObjectRelation rel P E)
       + foldMap_AnnotatedOrderByElement w (AOCObjectRelation rel P E) =
     size_AnnotatedOrderByElement (\<lambda>_. 0) w (AOCObjectRelation rel P E)"
proof -
  have "foldMap_AnnotatedOrderByElement (\<lambda>_. 1::nat) (AOCObjectRelation rel P E) =
      length (concat (map elems (elems P))) + foldMap_AnnotatedOrderByElement (\<lambda>_. 1) E"
    and "foldMap_AnnotatedOrderByElement (\<lambda>_. 1::nat) (AOCObjectRelation rel P (AOCColumn c)) =
      length (concat (map elems (elems P)))"
    and "foldMap_AnnotatedOrderByElement g (AOCObjectRelation rel P E) =
      foldMap_Imported (foldMap_Imported g) P + foldMap_AnnotatedOrderByElement g E"
    by (simp_all add: count_AnnBoolExp)
  moreover have "size_AnnotatedOrderByElement (\<lambda>_. 0) (\<lambda>_. 0) E
      + foldMap_AnnotatedOrderByElement w E = size_AnnotatedOrderByElement (\<lambda>_. 0) w E"
    by (rule size_AnnotatedOrderByElement_add [symmetric])
  moreover have "size_AnnotatedOrderByElement (\<lambda>_. 0) (\<lambda>_. 0) (AOCObjectRelation rel P E)
      + foldMap_AnnotatedOrderByElement w (AOCObjectRelation rel P E) =
      size_AnnotatedOrderByElement (\<lambda>_. 0) w (AOCObjectRelation rel P E)"
    by (rule size_AnnotatedOrderByElement_add [symmetric])
  ultimately show ?thesis by blast
qed

lemma computedOrderBy_count:
  "foldMap_AnnotatedOrderByElement (\<lambda>_. 1::nat) computedOrderBy = 3"
  by (simp add: computedOrderBy_def foldMap_list_def)

theorem object_relation_order_by_counts_filter_witness:
  "foldMap_AnnotatedOrderByElement (\<lambda>_. 1::nat)
     (AOCObjectRelation ''author'' threeLeafFilter (AOCColumn ''name'')) = 3
   \<and> foldMap_AnnotatedOrderByElement (\<lambda>_. 1::nat)
     (AOCObjectRelation ''author'' threeLeafFilter
        (AOCObjectRelation ''city'' (Imported ''and'' [Imported ''eq'' [''v4'']])
           (AOCColumn ''name''))) = 4
   \<and> foldMap_AnnotatedOrderByElement (\<lambda>_. 1::nat)
     (AOCObjectRelation ''author'' threeLeafFilter computedOrderBy) = 6
   \<and> size_AnnotatedOrderByElement (\<lambda>_. 0) (\<lambda>_. 1) computedOrderBy =
     size_AnnotatedOrderByElement (\<lambda>_. 0) (\<lambda>_. 0) computedOrderBy + 3"
  using object_relation_order_by_counts_filter
      [where rel = "''author''" and P = threeLeafFilter and E = "AOCColumn ''name''"
         and c = "''name''" and g = "\<lambda>_. 1::nat" and w = "\<lambda>_. 1"]
    object_relation_order_by_counts_filter
      [where rel = "''author''" and P = threeLeafFilter
         and E = "AOCObjectRelation ''city'' (Imported ''and'' [Imported ''eq'' [''v4'']])
            (AOCColumn ''name'')" and c = "''name''" and g = "\<lambda>_. 1::nat" and w = "\<lambda>_. 1"]
    object_relation_order_by_counts_filter
      [where rel = "''author''" and P = threeLeafFilter and E = computedOrderBy
         and c = "''name''" and g = "\<lambda>_. 1::nat" and w = "\<lambda>_. 1"]
    computedOrderBy_count
  by (simp add: threeLeafFilter_def foldMap_list_def)

subsection \<open>The fold of the connection select\<close>

lemma foldMap_ConnectionSplit_eq:
  "foldMap_ConnectionSplit g s =
     g (csValue s) + foldMap_Imported (foldMap_AnnotatedOrderByElement g) (csOrderBy s)"
  by (cases s) simp

lemma foldMap_NonEmpty_eq:
  "foldMap_NonEmpty h ne = sum_list (map h (neHead ne # neTail ne))"
  by (cases ne) (simp add: foldMap_list_def)

lemma bifoldMap_ConnectionSelect_splits:
  "bifoldMap_ConnectionSelect f g cs =
     (case csSplit cs of
        None \<Rightarrow> 0
      | Some splits \<Rightarrow>
          sum_list (map (\<lambda>s. g (csValue s)
                            + foldMap_Imported (foldMap_AnnotatedOrderByElement g) (csOrderBy s))
                     (neHead splits # neTail splits)))
     + bifoldMapAnnSelectG bifoldMap_ConnectionField f g (csSelect cs)"
proof (cases cs)
  case (ConnectionSelect x pk splt slc sel)
  have "foldMap_option (foldMap_NonEmpty (foldMap_ConnectionSplit g)) splt =
      (case splt of
        None \<Rightarrow> 0
      | Some splits \<Rightarrow>
          sum_list (map (\<lambda>s. g (csValue s)
                            + foldMap_Imported (foldMap_AnnotatedOrderByElement g) (csOrderBy s))
                     (neHead splits # neTail splits)))"
    by (cases splt) (simp_all add: foldMap_NonEmpty_eq foldMap_ConnectionSplit_eq [abs_def])
  with ConnectionSelect show ?thesis
    by (simp only: bifoldMap_ConnectionSelect_eq ConnectionSelect.sel)
qed

lemma monoid_hom_replayLeaves: "monoid_hom (\<lambda>vs. foldMap_list g (visited vs))"
  by (simp add: monoid_hom_def foldMap_list_def)

lemma foldMap_OrderByItem_replay:
  "foldMap_Imported (foldMap_AnnotatedOrderByElement g) ob =
     foldMap_list g
       (visited (foldMap_Imported (foldMap_AnnotatedOrderByElement (\<lambda>v. Visits [v])) ob))"
  using hom_foldMap_OrderByItem [OF monoid_hom_replayLeaves, of g "\<lambda>v. Visits [v]" ob]
  by (simp add: foldMap_list_def)

text \<open>
  C2. The bifold of a connection select is, for every split of the optional non-empty
  sequence of splits, the leaf function on the bound value of the split followed by the
  fold of its order-by item, and then the generic select bifold of the wrapped select.
  Nothing else is added. The part of a split is the fold of the list that holds the
  bound value and then the leaves recorded in the order-by item, and for all weights the
  weight of this list is the sum of the weights of all leaves embedded in the split, as
  the size function derived from the declaration adds them up: every leaf of the split
  is in it exactly once. For all weights the bifold of the connection select is the sum
  of the weights of all remote markers and leaves embedded in it.
\<close>

theorem bifoldMap_ConnectionSelect_spec:
  fixes f :: "'r \<Rightarrow> 'm::monoid_add" and g :: "'v \<Rightarrow> 'm"
    and cs :: "('b, 'r, 'v) ConnectionSelect" and s :: "('b, 'v) ConnectionSplit"
    and w wv :: "'v \<Rightarrow> nat" and wr :: "'r \<Rightarrow> nat"
  shows "bifoldMap_ConnectionSelect f g cs =
     (case csSplit cs of
        None \<Rightarrow> 0
      | Some splits \<Rightarrow>
          sum_list (map (\<lambda>s. g (csValue s)
                            + foldMap_Imported (foldMap_AnnotatedOrderByElement g) (csOrderBy s))
                     (neHead splits # neTail splits)))
     + bifoldMapAnnSelectG bifoldMap_ConnectionField f g (csSelect cs)
   \<and> g (csValue s) + foldMap_Imported (foldMap_AnnotatedOrderByElement g) (csOrderBy s) =
     foldMap_list g
       (csValue s
        # visited (foldMap_Imported (foldMap_AnnotatedOrderByElement (\<lambda>v. Visits [v]))
            (csOrderBy s)))
   \<and> size_ConnectionSplit (\<lambda>_. 0) (\<lambda>_. 0) s
       + sum_list (map w
           (csValue s
            # visited (foldMap_Imported (foldMap_AnnotatedOrderByElement (\<lambda>v. Visits [v]))
                (csOrderBy s)))) =
     size_ConnectionSplit (\<lambda>_. 0) w s
   \<and> size_ConnectionSelect (\<lambda>_. 0) (\<lambda>_. 0) (\<lambda>_. 0) cs + bifoldMap_ConnectionSelect wr wv cs =
     size_ConnectionSelect (\<lambda>_. 0) wr wv cs"
proof -
  have replay: "k (csValue s) + foldMap_Imported (foldMap_AnnotatedOrderByElement k) (csOrderBy s) =
      foldMap_list k
        (csValue s
         # visited (foldMap_Imported (foldMap_AnnotatedOrderByElement (\<lambda>v. Visits [v]))
             (csOrderBy s)))"
    for k :: "'v \<Rightarrow> 'n::monoid_add"
    using foldMap_OrderByItem_replay [of k "csOrderBy s"] by (simp add: foldMap_list_def)
  have "size_ConnectionSplit (\<lambda>_. 0) w s =
      size_ConnectionSplit (\<lambda>_. 0) (\<lambda>_. 0) s
      + (w (csValue s) + foldMap_Imported (foldMap_AnnotatedOrderByElement w) (csOrderBy s))"
    using size_ConnectionSplit_add [of "\<lambda>_. 0" w s] by (simp add: foldMap_ConnectionSplit_eq)
  with replay [of w] have weight: "size_ConnectionSplit (\<lambda>_. 0) (\<lambda>_. 0) s
       + sum_list (map w
           (csValue s
            # visited (foldMap_Imported (foldMap_AnnotatedOrderByElement (\<lambda>v. Visits [v]))
                (csOrderBy s)))) =
     size_ConnectionSplit (\<lambda>_. 0) w s"
    by (simp add: foldMap_list_def)
  have whole: "size_ConnectionSelect (\<lambda>_. 0) (\<lambda>_. 0) (\<lambda>_. 0) cs
      + bifoldMap_ConnectionSelect wr wv cs = size_ConnectionSelect (\<lambda>_. 0) wr wv cs"
    by (rule size_bifoldMap(6) [symmetric])
  from bifoldMap_ConnectionSelect_splits [of f g cs] replay [of g] weight whole
  show ?thesis by blast
qed

theorem bifoldMap_ConnectionSelect_spec_witness:
  "visited (bifoldMap_ConnectionSelect (\<lambda>r. Visits [Inl r]) (\<lambda>v. Visits [Inr v]) twoSplits) =
     [Inr ''v1'', Inr ''p1'', Inr ''v2'', Inr ''a1'', Inr ''a2'', Inr ''f1'', Inl ''R'', Inr ''q'']
   \<and> size_ConnectionSplit (\<lambda>_. 0) (\<lambda>_. 1)
         (ConnectionSplit CSKBefore ''v2'' (Imported ''desc'' [computedOrderBy])) =
       size_ConnectionSplit (\<lambda>_. 0) (\<lambda>_. 0)
         (ConnectionSplit CSKBefore ''v2'' (Imported ''desc'' [computedOrderBy])) + 4"
  using bifoldMap_ConnectionSelect_spec
      [where f = "\<lambda>r. Visits [Inl r]" and g = "\<lambda>v. Visits [Inr v]" and cs = twoSplits
         and s = "ConnectionSplit CSKBefore ''v2'' (Imported ''desc'' [computedOrderBy])"
         and w = "\<lambda>_. 1" and wr = "\<lambda>_. 0" and wv = "\<lambda>_. 0"]
  by (simp add: twoSplits_def computedOrderBy_def emptyFilter_def noTablePermissions_def
      noSelectArgs_def foldMap_list_def bifoldMap_fusion)

end
